theory Spec2Isabelle
  imports Main
begin

section \<open>JavaScript values and strings\<close>

text \<open>
  A field of a parsed JSON request body, or a nullable string field of a stored
  document, is absent (\<open>Undefined\<close>), \<open>null\<close> or a string. Strings are lists of code
  units below 256. Request bodies whose fields are numbers, booleans, arrays or objects
  are outside this model.
\<close>

datatype jsval = Undefined | Null | Str string

text \<open>JavaScript truthiness, as used by \<open>!x\<close>, \<open>x || y\<close>, \<open>x && y\<close> and \<open>if (x)\<close>.\<close>

fun truthy :: "jsval \<Rightarrow> bool" where
  "truthy Undefined = False"
| "truthy Null = False"
| "truthy (Str s) = (s \<noteq> [])"

fun str_of :: "jsval \<Rightarrow> string" where
  "str_of (Str s) = s"
| "str_of Undefined = []"
| "str_of Null = []"

text \<open>\<open>a || b\<close> on such values.\<close>

definition js_or :: "jsval \<Rightarrow> jsval \<Rightarrow> jsval" where
  "js_or a b = (if truthy a then a else b)"

text \<open>\<open>s.startsWith(p)\<close> and \<open>s.includes(p)\<close>.\<close>

definition startsWith :: "string \<Rightarrow> string \<Rightarrow> bool" where
  "startsWith s p = (take (length p) s = p)"

fun js_includes :: "string \<Rightarrow> string \<Rightarrow> bool" where
  "js_includes [] p = (p = [])"
| "js_includes (c # cs) p = (startsWith (c # cs) p \<or> js_includes cs p)"

text \<open>
  White space removed by \<open>String.prototype.trim\<close>, among the code units below 256:
  TAB, LF, VT, FF, CR, SPACE and NBSP.
\<close>

definition js_space :: "char \<Rightarrow> bool" where
  "js_space c = (of_char c \<in> {9, 10, 11, 12, 13, 32, 160 :: nat})"

definition js_trim :: "string \<Rightarrow> string" where
  "js_trim s = rev (dropWhile js_space (rev (dropWhile js_space s)))"

text \<open>
  \<open>String.prototype.toLowerCase\<close> on code units below 256: A..Z and the Latin-1 capitals
  (0xC0..0xDE without the multiplication sign 0xD7) move up by 32.
\<close>

definition lower_char :: "char \<Rightarrow> char" where
  "lower_char c =
     (let n = (of_char c :: nat) in
      if (65 \<le> n \<and> n \<le> 90) \<or> (192 \<le> n \<and> n \<le> 222 \<and> n \<noteq> 215)
      then char_of (n + 32) else c)"

definition toLowerCase :: "string \<Rightarrow> string" where
  "toLowerCase s = map lower_char s"

text \<open>\<open>s.split(sep)\<close> for a one-character separator: never an empty array.\<close>

fun js_split :: "char \<Rightarrow> string \<Rightarrow> string list" where
  "js_split sep [] = [[]]"
| "js_split sep (c # cs) =
     (if c = sep then [] # js_split sep cs
      else (case js_split sep cs of
              [] \<Rightarrow> [[c]]
            | w # ws \<Rightarrow> (c # w) # ws))"

text \<open>\<open>xs.indexOf(x)\<close>: \<open>None\<close> stands for \<open>-1\<close>.\<close>

fun indexOf :: "'a list \<Rightarrow> 'a \<Rightarrow> nat option" where
  "indexOf [] x = None"
| "indexOf (y # ys) x =
     (if y = x then Some 0
      else (case indexOf ys x of None \<Rightarrow> None | Some i \<Rightarrow> Some (Suc i)))"

text \<open>\<open>s.lastIndexOf(c)\<close>: \<open>None\<close> stands for \<open>-1\<close>.\<close>

fun lastIndexOf :: "'a list \<Rightarrow> 'a \<Rightarrow> nat option" where
  "lastIndexOf [] x = None"
| "lastIndexOf (y # ys) x =
     (case lastIndexOf ys x of
        Some i \<Rightarrow> Some (Suc i)
      | None \<Rightarrow> (if y = x then Some 0 else None))"

text \<open>\<open>parts.join(sep)\<close>.\<close>

fun js_join :: "string \<Rightarrow> string list \<Rightarrow> string" where
  "js_join sep [] = []"
| "js_join sep [x] = x"
| "js_join sep (x # y # ys) = x @ sep @ js_join sep (y # ys)"

text \<open>
  \<open>s.replace(pat, rep)\<close> with a string pattern: only the first occurrence is replaced
  (the replacements used by the routes contain no \<open>$\<close>).
\<close>

fun js_replace :: "string \<Rightarrow> string \<Rightarrow> string \<Rightarrow> string" where
  "js_replace [] pat rep = (if pat = [] then rep else [])"
| "js_replace (c # cs) pat rep =
     (if startsWith (c # cs) pat then rep @ drop (length pat) (c # cs)
      else c # js_replace cs pat rep)"

section \<open>Replies of the route handlers\<close>

text \<open>
  Errors thrown by Mongoose: a validation error carries the failing paths. What a route
  sends: \<open>res.status(n).json({error: msg})\<close> with a literal message, the same with the
  message of a caught exception, a stored record with a status, \<open>{message: msg}\<close> with
  status 200, \<open>{message: msg, avatar: a}\<close> with status 200, or a redirect.
\<close>

datatype js_error = ValidationError "string list" | FsError string | PlainError string
  | MulterError string

datatype 'r reply =
    ReplyError nat string
  | ReplyCaught nat js_error
  | ReplyDoc nat 'r
  | ReplyMessage string
  | ReplyAvatar string jsval
  | Redirect string

text \<open>A request body: the properties of the parsed object; a missing key reads as \<open>undefined\<close>.\<close>

type_synonym body = "(string \<times> jsval) list"

definition field :: "body \<Rightarrow> string \<Rightarrow> jsval" where
  "field b k = (case map_of b k of None \<Rightarrow> Undefined | Some v \<Rightarrow> v)"

section \<open>The Password model (models/Password.js)\<close>

type_synonym oid = nat

text \<open>The options of a String path of a schema.\<close>

record schematype =
  required :: bool
  trim :: bool
  enum :: "string list option"
  default :: "string option"

definition title_path :: schematype where
  "title_path = \<lparr>required = True, trim = True, enum = None, default = None\<rparr>"

definition username_path :: schematype where
  "username_path = \<lparr>required = False, trim = True, enum = None, default = None\<rparr>"

definition password_path :: schematype where
  "password_path = \<lparr>required = True, trim = False, enum = None, default = None\<rparr>"

definition website_path :: schematype where
  "website_path = \<lparr>required = False, trim = True, enum = None, default = None\<rparr>"

definition category_path :: schematype where
  "category_path =
     \<lparr>required = False, trim = True,
      enum = Some [''social'', ''email'', ''banking'', ''shopping'', ''work'', ''other''],
      default = Some ''other''\<rparr>"

definition notes_path :: schematype where
  "notes_path = \<lparr>required = False, trim = True, enum = None, default = None\<rparr>"

text \<open>
  Casting a value to a String path applies the \<open>trim\<close> setter; a new document takes the
  default where the value is \<open>undefined\<close>.
\<close>

definition cast_path :: "schematype \<Rightarrow> jsval \<Rightarrow> jsval" where
  "cast_path st v =
     (case v of Str s \<Rightarrow> Str (if trim st then js_trim s else s) | _ \<Rightarrow> v)"

definition with_default :: "schematype \<Rightarrow> jsval \<Rightarrow> jsval" where
  "with_default st v =
     (case v of
        Undefined \<Rightarrow> (case default st of None \<Rightarrow> Undefined | Some d \<Rightarrow> Str d)
      | _ \<Rightarrow> v)"

text \<open>
  The validators of a path, run on the cast value: \<open>required\<close> refuses \<open>undefined\<close>,
  \<open>null\<close> and the empty string; \<open>enum\<close> refuses a string outside the list.
\<close>

definition path_invalid :: "schematype \<Rightarrow> jsval \<Rightarrow> bool" where
  "path_invalid st v =
     ((required st \<and> \<not> truthy v) \<or>
      (case (enum st, v) of (Some vals, Str s) \<Rightarrow> s \<notin> set vals | _ \<Rightarrow> False))"

record password_doc =
  p_id :: oid
  p_userId :: oid
  p_title :: string
  p_username :: jsval
  p_password :: string
  p_website :: jsval
  p_category :: string
  p_notes :: jsval
  p_createdAt :: nat
  p_updatedAt :: nat

text \<open>The object literal handed to \<open>new Password(...)\<close> or to \<open>findOneAndUpdate\<close>.\<close>

record password_fields =
  f_title :: jsval
  f_username :: jsval
  f_password :: jsval
  f_website :: jsval
  f_category :: jsval
  f_notes :: jsval

definition cast_fields :: "password_fields \<Rightarrow> password_fields" where
  "cast_fields f =
     \<lparr>f_title = cast_path title_path (f_title f),
      f_username = cast_path username_path (f_username f),
      f_password = cast_path password_path (f_password f),
      f_website = cast_path website_path (f_website f),
      f_category = cast_path category_path (f_category f),
      f_notes = cast_path notes_path (f_notes f)\<rparr>"

definition schema_paths :: "password_fields \<Rightarrow> (string \<times> schematype \<times> jsval) list" where
  "schema_paths f =
     [(''title'', title_path, f_title f),
      (''username'', username_path, f_username f),
      (''password'', password_path, f_password f),
      (''website'', website_path, f_website f),
      (''category'', category_path, f_category f),
      (''notes'', notes_path, f_notes f)]"

text \<open>\<open>doc.validate()\<close>, run by \<open>save()\<close>: the paths whose validators fail.\<close>

definition invalid_paths :: "password_fields \<Rightarrow> string list" where
  "invalid_paths f =
     map fst (filter (\<lambda>(k, st, v). path_invalid st v) (schema_paths f))"

text \<open>
  Update validators (\<open>runValidators: true\<close>) run on the paths the update sets: keys whose
  value is \<open>undefined\<close> are removed from the update first and are not validated.
\<close>

definition invalid_update_paths :: "password_fields \<Rightarrow> string list" where
  "invalid_update_paths f =
     map fst (filter (\<lambda>(k, st, v). v \<noteq> Undefined \<and> path_invalid st v) (schema_paths f))"

section \<open>Collections\<close>

text \<open>
  A collection is the list of its documents in insertion order. \<open>findOne\<close> is
  \<^const>\<open>find\<close> with the filter as predicate.
\<close>

fun update_first :: "('a \<Rightarrow> bool) \<Rightarrow> ('a \<Rightarrow> 'a) \<Rightarrow> 'a list \<Rightarrow> 'a list" where
  "update_first P g [] = []"
| "update_first P g (x # xs) = (if P x then g x # xs else x # update_first P g xs)"

fun remove_first :: "('a \<Rightarrow> bool) \<Rightarrow> 'a list \<Rightarrow> 'a list" where
  "remove_first P [] = []"
| "remove_first P (x # xs) = (if P x then xs else x # remove_first P xs)"

text \<open>The filter \<open>{ _id: id, userId: uid }\<close> of every by-id query on passwords.\<close>

definition pw_filter :: "oid \<Rightarrow> oid \<Rightarrow> password_doc \<Rightarrow> bool" where
  "pw_filter i u p = (p_id p = i \<and> p_userId p = u)"

text \<open>
  \<open>new Password({...})\<close> followed by \<open>save()\<close>: defaults, casting, validation, insertion
  with both timestamps. The fresh \<open>_id\<close> and the clock come from the environment.
\<close>

definition Password_create ::
  "oid \<Rightarrow> nat \<Rightarrow> oid \<Rightarrow> password_fields \<Rightarrow> password_doc list
     \<Rightarrow> js_error + (password_doc \<times> password_doc list)" where
  "Password_create newId now uid f ps =
     (let c = cast_fields (f\<lparr>f_category := with_default category_path (f_category f)\<rparr>)
      in if invalid_paths c \<noteq> [] then Inl (ValidationError (invalid_paths c))
         else
           (let d = \<lparr>p_id = newId, p_userId = uid, p_title = str_of (f_title c),
                     p_username = f_username c, p_password = str_of (f_password c),
                     p_website = f_website c, p_category = str_of (f_category c),
                     p_notes = f_notes c, p_createdAt = now, p_updatedAt = now\<rparr>
            in Inr (d, ps @ [d])))"

text \<open>What a validated update does to the matched document (\<open>$set\<close> of the defined keys).\<close>

definition set_str :: "jsval \<Rightarrow> string \<Rightarrow> string" where
  "set_str v old = (case v of Str s \<Rightarrow> s | _ \<Rightarrow> old)"

definition set_val :: "jsval \<Rightarrow> jsval \<Rightarrow> jsval" where
  "set_val v old = (case v of Undefined \<Rightarrow> old | _ \<Rightarrow> v)"

definition apply_update :: "nat \<Rightarrow> password_fields \<Rightarrow> password_doc \<Rightarrow> password_doc" where
  "apply_update now c p =
     p\<lparr>p_title := set_str (f_title c) (p_title p),
       p_username := set_val (f_username c) (p_username p),
       p_password := set_str (f_password c) (p_password p),
       p_website := set_val (f_website c) (p_website p),
       p_category := set_str (f_category c) (p_category p),
       p_notes := set_val (f_notes c) (p_notes p),
       p_updatedAt := now\<rparr>"

text \<open>
  \<open>Password.findOneAndUpdate(filter, update, { new: true, runValidators: true })\<close>:
  the update is cast and validated before the query is sent; then the first document
  matching the filter is updated and the updated document returned, or \<open>null\<close>.
\<close>

definition Password_findOneAndUpdate ::
  "nat \<Rightarrow> (password_doc \<Rightarrow> bool) \<Rightarrow> password_fields \<Rightarrow> password_doc list
     \<Rightarrow> js_error + (password_doc option \<times> password_doc list)" where
  "Password_findOneAndUpdate now flt f ps =
     (let c = cast_fields f
      in if invalid_update_paths c \<noteq> [] then Inl (ValidationError (invalid_update_paths c))
         else Inr (map_option (apply_update now c) (find flt ps),
                   update_first flt (apply_update now c) ps))"

text \<open>\<open>Password.findOneAndDelete(filter)\<close>: the removed document, or \<open>null\<close>.\<close>

definition Password_findOneAndDelete ::
  "(password_doc \<Rightarrow> bool) \<Rightarrow> password_doc list \<Rightarrow> password_doc option \<times> password_doc list" where
  "Password_findOneAndDelete flt ps = (find flt ps, remove_first flt ps)"

section \<open>The password routes (routes/passwords.js)\<close>

text \<open>
  Each handler takes the authenticated user id (\<open>req.user.userId\<close>), the route parameter
  and the body, and the collection; it returns the reply and the collection afterwards.
  Route parameters are well-formed ObjectIds.
\<close>

text \<open>
  After \<open>const { title, username, password, website, category, notes } = req.body\<close>,
  the create and the update route build the same object literal
  \<open>{ title, username, password, website, category: category || 'other', notes }\<close>
  (the create route adds \<open>userId: req.user.userId\<close>). Other keys of the body are not read.
\<close>

definition body_fields :: "body \<Rightarrow> password_fields" where
  "body_fields b =
     \<lparr>f_title = field b ''title'', f_username = field b ''username'',
      f_password = field b ''password'', f_website = field b ''website'',
      f_category = js_or (field b ''category'') (Str ''other''),
      f_notes = field b ''notes''\<rparr>"

definition getPassword :: "oid \<Rightarrow> oid \<Rightarrow> password_doc list \<Rightarrow> password_doc reply" where
  "getPassword uid i ps =
     (case find (pw_filter i uid) ps of
        None \<Rightarrow> ReplyError 404 ''Password not found''
      | Some p \<Rightarrow> ReplyDoc 200 p)"

definition createPassword ::
  "oid \<Rightarrow> nat \<Rightarrow> oid \<Rightarrow> body \<Rightarrow> password_doc list \<Rightarrow> password_doc reply \<times> password_doc list" where
  "createPassword newId now uid b ps =
     (if \<not> truthy (field b ''title'') \<or> \<not> truthy (field b ''password'')
      then (ReplyError 400 ''Title and password are required'', ps)
      else
        (case Password_create newId now uid (body_fields b) ps of
           Inl e \<Rightarrow> (ReplyCaught 500 e, ps)
         | Inr (d, ps') \<Rightarrow> (ReplyDoc 201 d, ps')))"

definition updatePassword ::
  "nat \<Rightarrow> oid \<Rightarrow> oid \<Rightarrow> body \<Rightarrow> password_doc list \<Rightarrow> password_doc reply \<times> password_doc list" where
  "updatePassword now uid i b ps =
     (case Password_findOneAndUpdate now (pw_filter i uid) (body_fields b) ps of
        Inl e \<Rightarrow> (ReplyCaught 500 e, ps)
      | Inr (None, ps') \<Rightarrow> (ReplyError 404 ''Password not found'', ps')
      | Inr (Some p, ps') \<Rightarrow> (ReplyDoc 200 p, ps'))"

definition deletePassword ::
  "oid \<Rightarrow> oid \<Rightarrow> password_doc list \<Rightarrow> password_doc reply \<times> password_doc list" where
  "deletePassword uid i ps =
     (case Password_findOneAndDelete (pw_filter i uid) ps of
        (None, ps') \<Rightarrow> (ReplyError 404 ''Password not found'', ps')
      | (Some p, ps') \<Rightarrow> (ReplyMessage ''Password deleted successfully'', ps'))"

section \<open>Platform functions and the local disk\<close>

text \<open>
  Functions of Node.js that the storage helpers call and that are not part of the
  repository are parameters: \<open>__dirname\<close>, \<open>path.join\<close>, \<open>path.basename\<close>,
  \<open>path.extname\<close>, the \<open>pathname\<close> of \<open>new URL(url)\<close> (\<open>None\<close> when the constructor
  throws) and the string form of an ObjectId.
\<close>

record platform =
  dirname :: string
  path_join :: "string list \<Rightarrow> string"
  path_basename :: "string \<Rightarrow> string \<Rightarrow> string"
  path_extname :: "string \<Rightarrow> string"
  url_pathname :: "string \<Rightarrow> string option"
  oid_string :: "oid \<Rightarrow> string"

text \<open>
  The disk: the paths that exist, and the paths whose removal fails (a permission
  error, a directory). \<open>fs.unlinkSync\<close> throws on those and on a missing path.
\<close>

record fsys =
  files :: "string list"
  undeletable :: "string list"

definition existsSync :: "fsys \<Rightarrow> string \<Rightarrow> bool" where
  "existsSync fs p = (p \<in> set (files fs))"

definition unlinkSync :: "fsys \<Rightarrow> string \<Rightarrow> js_error + fsys" where
  "unlinkSync fs p =
     (if p \<notin> set (files fs) \<or> p \<in> set (undeletable fs) then Inl (FsError p)
      else Inr (fs\<lparr>files := removeAll p (files fs)\<rparr>))"

section \<open>Storage helpers (utils/cloudinary.js)\<close>

definition avatarsDir :: "platform \<Rightarrow> string" where
  "avatarsDir pf = path_join pf [dirname pf, ''..'', ''uploads'', ''avatars'']"

definition documentsDir :: "platform \<Rightarrow> string" where
  "documentsDir pf = path_join pf [dirname pf, ''..'', ''uploads'', ''documents'']"

text \<open>
  The \<open>try\<close> block of \<open>deleteFromCloudinary\<close>: the result and the disk afterwards, or
  the exception thrown.
\<close>

definition delete_try :: "platform \<Rightarrow> string \<Rightarrow> fsys \<Rightarrow> js_error + (string \<times> fsys)" where
  "delete_try pf publicId fs =
     (let target =
        (if startsWith publicId ''uploads/''
         then Some (path_join pf [dirname pf, ''..'', publicId])
         else if js_includes publicId ''/''
         then Some (path_join pf [dirname pf, ''..'', ''uploads'', publicId])
         else
           (let avatarPath = path_join pf [avatarsDir pf, publicId];
                docPath = path_join pf [documentsDir pf, publicId]
            in if existsSync fs avatarPath then Some avatarPath
               else if existsSync fs docPath then Some docPath
               else None))
      in case target of
           None \<Rightarrow> Inr (''ok'', fs)
         | Some filePath \<Rightarrow>
             (if existsSync fs filePath
              then (case unlinkSync fs filePath of
                      Inl e \<Rightarrow> Inl e
                    | Inr fs' \<Rightarrow> Inr (''ok'', fs'))
              else Inr (''ok'', fs)))"

text \<open>
  \<open>deleteFromCloudinary\<close>: the \<open>catch\<close> turns an exception into the same result. The first
  component is the value the promise resolves to (\<open>Inr\<close>) or rejects with (\<open>Inl\<close>).
\<close>

definition deleteFromCloudinary ::
  "platform \<Rightarrow> string \<Rightarrow> fsys \<Rightarrow> (js_error + string) \<times> fsys" where
  "deleteFromCloudinary pf publicId fs =
     (case delete_try pf publicId fs of
        Inl e \<Rightarrow> (Inr ''ok'', fs)
      | Inr (r, fs') \<Rightarrow> (Inr r, fs'))"

text \<open>The regular expression \<open>/^v\d+$/\<close>.\<close>

definition is_digit :: "char \<Rightarrow> bool" where
  "is_digit c = (48 \<le> (of_char c :: nat) \<and> (of_char c :: nat) \<le> 57)"

fun is_version :: "string \<Rightarrow> bool" where
  "is_version [] = False"
| "is_version (c # ds) = (c = CHR ''v'' \<and> ds \<noteq> [] \<and> list_all is_digit ds)"

text \<open>
  \<open>extractPublicId\<close>: \<open>None\<close> is \<open>null\<close>. The \<open>catch\<close> around the URL branch returns
  \<open>null\<close> when \<open>new URL\<close> throws.
\<close>

definition extractPublicId :: "platform \<Rightarrow> jsval \<Rightarrow> string option" where
  "extractPublicId pf url =
     (if \<not> truthy url then None
      else if \<not> startsWith (str_of url) ''http''
      then Some (path_basename pf (str_of url) (path_extname pf (str_of url)))
      else
        (case url_pathname pf (str_of url) of
           None \<Rightarrow> None
         | Some pathname \<Rightarrow>
             (let pathParts = js_split CHR ''/'' pathname
              in case indexOf pathParts ''upload'' of
                   None \<Rightarrow> None
                 | Some uploadIndex \<Rightarrow>
                     (let publicIdParts = drop (uploadIndex + 1) pathParts;
                          publicIdParts' =
                            (case publicIdParts of
                               [] \<Rightarrow> publicIdParts
                             | p0 # rest \<Rightarrow>
                                 if p0 \<noteq> [] \<and> is_version p0 then rest else publicIdParts);
                          publicId = js_join ''/'' publicIdParts'
                      in case lastIndexOf publicId CHR ''.'' of
                           None \<Rightarrow> Some publicId
                         | Some lastDot \<Rightarrow> Some (take lastDot publicId)))))"

text \<open>
  The avatar upload filter: the regular expression \<open>/jpeg|jpg|png|gif|webp/\<close> is not
  anchored, so \<open>test\<close> holds when one alternative occurs anywhere in the string.
\<close>

record upload_file =
  originalname :: string
  mimetype :: string
  size :: nat

definition allowedTypes_test :: "string \<Rightarrow> bool" where
  "allowedTypes_test s =
     list_ex (js_includes s) [''jpeg'', ''jpg'', ''png'', ''gif'', ''webp'']"

definition fileFilter :: "upload_file \<Rightarrow> js_error + bool" where
  "fileFilter file =
     (let extname = allowedTypes_test (toLowerCase (originalname file));
          mimetype = allowedTypes_test (mimetype file)
      in if mimetype \<and> extname then Inr True
         else Inl (PlainError ''Only image files are allowed''))"

text \<open>
  \<open>uploadAvatar.single('avatar')\<close>: no file part leaves \<open>req.file\<close> undefined; the
  filter runs before anything is written; a file above 5MB ends in the multer error
  \<open>LIMIT_FILE_SIZE\<close> with nothing left on disk; otherwise the file is written under a
  generated name into the avatars directory. The unique suffix (clock and random
  number) comes from the environment.
\<close>

record stored_file =
  sf_originalname :: string
  sf_mimetype :: string
  sf_size :: nat
  sf_filename :: string
  sf_path :: string

definition uploadAvatar_single ::
  "platform \<Rightarrow> string \<Rightarrow> oid \<Rightarrow> upload_file option \<Rightarrow> fsys
     \<Rightarrow> js_error + (stored_file option \<times> fsys)" where
  "uploadAvatar_single pf uniqueSuffix uid part fs =
     (case part of
        None \<Rightarrow> Inr (None, fs)
      | Some file \<Rightarrow>
          (case fileFilter file of
             Inl e \<Rightarrow> Inl e
           | Inr accepted \<Rightarrow>
               if size file > 5 * 1024 * 1024 then Inl (MulterError ''LIMIT_FILE_SIZE'')
               else
                 (let filename = oid_string pf uid @ ''-'' @ uniqueSuffix
                                   @ path_extname pf (originalname file);
                      path = path_join pf [avatarsDir pf, filename]
                  in Inr (Some \<lparr>sf_originalname = originalname file,
                                 sf_mimetype = mimetype file, sf_size = size file,
                                 sf_filename = filename, sf_path = path\<rparr>,
                          fs\<lparr>files := List.insert path (files fs)\<rparr>))))"

section \<open>Documents, users and the world the routes act on\<close>

record document_doc =
  d_id :: oid
  d_userId :: oid
  d_filename :: string
  d_originalName :: string
  d_filePath :: jsval
  d_fileType :: string
  d_fileSize :: nat

text \<open>Of a user, the avatar routes read and write the avatar locator only.\<close>

record user_doc =
  u_id :: oid
  u_avatar :: jsval

text \<open>
  Effects in the order they happen: a call of \<open>deleteFromCloudinary\<close> with its argument,
  \<open>user.save()\<close> with the avatar saved, and \<open>Document.findByIdAndDelete\<close>.
\<close>

datatype event = BlobDelete string | UserSave oid jsval | DocumentDelete oid

record world =
  documents :: "document_doc list"
  users :: "user_doc list"
  disk :: fsys
  events :: "event list"

text \<open>The filter \<open>{ _id: id, userId: uid }\<close> of every by-id query on documents.\<close>

definition doc_filter :: "oid \<Rightarrow> oid \<Rightarrow> document_doc \<Rightarrow> bool" where
  "doc_filter i u d = (d_id d = i \<and> d_userId d = u)"

text \<open>
  The block the three deleting routes share, with its own \<open>try\<close>/\<open>catch\<close>:
  \<open>extractPublicId\<close>, then, when the identifier is truthy, \<open>deleteFromCloudinary\<close> of the
  folder followed by the identifier. A rejection is caught and logged, and the route
  goes on.
\<close>

definition try_delete_blob :: "platform \<Rightarrow> string \<Rightarrow> jsval \<Rightarrow> world \<Rightarrow> world" where
  "try_delete_blob pf folder locator w =
     (case extractPublicId pf locator of
        None \<Rightarrow> w
      | Some publicId \<Rightarrow>
          if publicId = [] then w
          else
            (case deleteFromCloudinary pf (folder @ publicId) (disk w) of
               (Inl deleteError, fs') \<Rightarrow>
                 w\<lparr>disk := fs', events := events w @ [BlobDelete (folder @ publicId)]\<rparr>
             | (Inr r, fs') \<Rightarrow>
                 w\<lparr>disk := fs', events := events w @ [BlobDelete (folder @ publicId)]\<rparr>))"

section \<open>The document routes (routes/documents.js)\<close>

definition getDocument :: "oid \<Rightarrow> oid \<Rightarrow> world \<Rightarrow> document_doc reply" where
  "getDocument uid i w =
     (case find (doc_filter i uid) (documents w) of
        None \<Rightarrow> ReplyError 404 ''Document not found''
      | Some d \<Rightarrow> ReplyDoc 200 d)"

definition downloadDocument :: "oid \<Rightarrow> oid \<Rightarrow> world \<Rightarrow> document_doc reply" where
  "downloadDocument uid i w =
     (case find (doc_filter i uid) (documents w) of
        None \<Rightarrow> ReplyError 404 ''Document not found''
      | Some d \<Rightarrow>
          if truthy (d_filePath d) \<and> startsWith (str_of (d_filePath d)) ''http''
          then Redirect (js_replace (str_of (d_filePath d)) ''/upload/''
                           ''/upload/fl_attachment/'')
          else ReplyError 404 ''File not found'')"

definition deleteDocument ::
  "platform \<Rightarrow> oid \<Rightarrow> oid \<Rightarrow> world \<Rightarrow> document_doc reply \<times> world" where
  "deleteDocument pf uid i w =
     (case find (doc_filter i uid) (documents w) of
        None \<Rightarrow> (ReplyError 404 ''Document not found'', w)
      | Some d \<Rightarrow>
          (let w1 = (if truthy (d_filePath d) \<and> startsWith (str_of (d_filePath d)) ''http''
                     then try_delete_blob pf ''password-manager/documents/'' (d_filePath d) w
                     else w);
               w2 = w1\<lparr>documents := remove_first (\<lambda>x. d_id x = d_id d) (documents w1),
                       events := events w1 @ [DocumentDelete (d_id d)]\<rparr>
           in (ReplyMessage ''Document deleted successfully'', w2)))"

section \<open>The avatar routes (routes/user.js)\<close>

definition postAvatar ::
  "platform \<Rightarrow> string \<Rightarrow> oid \<Rightarrow> upload_file option \<Rightarrow> world \<Rightarrow> user_doc reply \<times> world" where
  "postAvatar pf uniqueSuffix uid part w =
     (case uploadAvatar_single pf uniqueSuffix uid part (disk w) of
        Inl (MulterError code) \<Rightarrow>
          if code = ''LIMIT_FILE_SIZE''
          then (ReplyError 400 ''File size too large. Maximum size is 5MB'', w)
          else (ReplyCaught 400 (MulterError code), w)
      | Inl err \<Rightarrow> (ReplyCaught 400 err, w)
      | Inr (None, fs1) \<Rightarrow>
          (ReplyError 400 ''No file uploaded. Please select an image file.'', w\<lparr>disk := fs1\<rparr>)
      | Inr (Some file, fs1) \<Rightarrow>
          (let w1 = w\<lparr>disk := fs1\<rparr>
           in case find (\<lambda>u. u_id u = uid) (users w1) of
                None \<Rightarrow> (ReplyError 404 ''User not found'', w1)
              | Some user \<Rightarrow>
                  (let w2 = (if truthy (u_avatar user)
                             then try_delete_blob pf ''password-manager/avatars/''
                                    (u_avatar user) w1
                             else w1);
                       avatar = (if sf_path file \<noteq> [] \<and> startsWith (sf_path file) ''http''
                                 then Str (sf_path file)
                                 else Str (''/uploads/avatars/'' @ sf_filename file));
                       w3 = w2\<lparr>users := update_first (\<lambda>u. u_id u = uid)
                                           (\<lambda>u. u\<lparr>u_avatar := avatar\<rparr>) (users w2),
                               events := events w2 @ [UserSave uid avatar]\<rparr>
                   in (ReplyAvatar ''Avatar uploaded successfully'' avatar, w3))))"

definition deleteAvatar :: "platform \<Rightarrow> oid \<Rightarrow> world \<Rightarrow> user_doc reply \<times> world" where
  "deleteAvatar pf uid w =
     (case find (\<lambda>u. u_id u = uid) (users w) of
        None \<Rightarrow> (ReplyError 404 ''User not found'', w)
      | Some user \<Rightarrow>
          (let w' = (if truthy (u_avatar user)
                     then
                       (let w1 = try_delete_blob pf ''password-manager/avatars/''
                                   (u_avatar user) w
                        in w1\<lparr>users := update_first (\<lambda>u. u_id u = uid)
                                          (\<lambda>u. u\<lparr>u_avatar := Null\<rparr>) (users w1),
                              events := events w1 @ [UserSave uid Null]\<rparr>)
                     else w)
           in (ReplyMessage ''Avatar deleted successfully'', w')))"

section \<open>The extraction of a remote identifier, as the specification words it\<close>

text \<open>
  Locate the fixed path marker \<open>upload\<close> among the segments of the path and keep what
  follows it; skip a leading version segment; strip the extension of the file, which is
  the last segment: the part of its name from its last dot; join the segments. A path
  without the marker, or a locator that does not parse, has no identifier.
\<close>

definition after_marker :: "string list \<Rightarrow> string list option" where
  "after_marker segs =
     (if ''upload'' \<in> set segs then Some (tl (dropWhile (\<lambda>s. s \<noteq> ''upload'') segs))
      else None)"

definition skip_version :: "string list \<Rightarrow> string list" where
  "skip_version segs =
     (case segs of [] \<Rightarrow> [] | v # rest \<Rightarrow> if is_version v then rest else segs)"

text \<open>A file name without its extension.\<close>

definition file_stem :: "string \<Rightarrow> string" where
  "file_stem name =
     (if CHR ''.'' \<in> set name
      then rev (tl (dropWhile (\<lambda>c. c \<noteq> CHR ''.'') (rev name))) else name)"

definition strip_file_extension :: "string list \<Rightarrow> string list" where
  "strip_file_extension segs =
     (if segs = [] then [] else butlast segs @ [file_stem (last segs)])"

definition remote_identifier :: "(string \<Rightarrow> string option) \<Rightarrow> string \<Rightarrow> string option" where
  "remote_identifier parse url =
     (case parse url of
        None \<Rightarrow> None
      | Some pathname \<Rightarrow>
          map_option (\<lambda>rest. js_join ''/'' (strip_file_extension (skip_version rest)))
            (after_marker (js_split CHR ''/'' pathname)))"

text \<open>
  The segments of an identifier whose last dot, if it has one, is in the file name: there
  is no segment, or the last segment has a dot, or no segment has one.
\<close>

definition last_dot_in_file_name :: "string list \<Rightarrow> bool" where
  "last_dot_in_file_name segs =
     (segs = [] \<or> CHR ''.'' \<in> set (last segs)
      \<or> list_all (\<lambda>seg. CHR ''.'' \<notin> set seg) segs)"

section \<open>Example data\<close>

text \<open>
  A platform for the examples: paths joined with a slash and not normalised, base name
  and extension taken from the last segment, and the path of an \<open>http://\<close> or
  \<open>https://\<close> URL read after the host. The theorems hold for every platform.
\<close>

definition sample_extname :: "string \<Rightarrow> string" where
  "sample_extname p =
     (let base = last (js_split CHR ''/'' p)
      in case lastIndexOf base CHR ''.'' of
           None \<Rightarrow> []
         | Some i \<Rightarrow> if i = 0 then [] else drop i base)"

definition sample_basename :: "string \<Rightarrow> string \<Rightarrow> string" where
  "sample_basename p ext =
     (let base = last (js_split CHR ''/'' p)
      in if ext \<noteq> [] \<and> length ext < length base
            \<and> drop (length base - length ext) base = ext
         then take (length base - length ext) base else base)"

definition sample_pathname :: "string \<Rightarrow> string option" where
  "sample_pathname url =
     (let rest = (if startsWith url ''http://'' then Some (drop 7 url)
                  else if startsWith url ''https://'' then Some (drop 8 url)
                  else None)
      in case rest of
           None \<Rightarrow> None
         | Some r \<Rightarrow>
             if r = [] \<or> hd r = CHR ''/'' then None
             else (case dropWhile (\<lambda>c. c \<noteq> CHR ''/'') r of
                     [] \<Rightarrow> Some ''/''
                   | path \<Rightarrow> Some path))"

definition sample_platform :: platform where
  "sample_platform =
     \<lparr>dirname = ''/app/utils'', path_join = js_join ''/'',
      path_basename = sample_basename, path_extname = sample_extname,
      url_pathname = sample_pathname,
      oid_string = (\<lambda>n. replicate n CHR ''u'')\<rparr>"

definition alice :: oid where "alice = 1"
definition bob :: oid where "bob = 2"

definition bank_entry :: password_doc where
  "bank_entry =
     \<lparr>p_id = 10, p_userId = alice, p_title = ''Bank'', p_username = Undefined,
      p_password = ''x'', p_website = Undefined, p_category = ''banking'',
      p_notes = Undefined, p_createdAt = 5, p_updatedAt = 5\<rparr>"

definition remote_doc :: document_doc where
  "remote_doc =
     \<lparr>d_id = 20, d_userId = alice, d_filename = ''report'', d_originalName = ''report.pdf'',
      d_filePath = Str ''https://res.cloudinary.com/demo/raw/upload/v17/docs/report.pdf'',
      d_fileType = ''application/pdf'', d_fileSize = 2048\<rparr>"

definition local_doc :: document_doc where
  "local_doc =
     \<lparr>d_id = 21, d_userId = alice, d_filename = ''17-5.pdf'', d_originalName = ''notes.pdf'',
      d_filePath = Str ''/uploads/documents/17-5.pdf'',
      d_fileType = ''application/pdf'', d_fileSize = 1024\<rparr>"

definition alice_user :: user_doc where
  "alice_user = \<lparr>u_id = alice, u_avatar = Str ''/uploads/avatars/u-16-3.png''\<rparr>"

definition bob_user :: user_doc where
  "bob_user = \<lparr>u_id = bob, u_avatar = Null\<rparr>"

text \<open>
  The blob that deleting \<open>remote_doc\<close> looks for exists and cannot be removed; the file
  of \<open>local_doc\<close> and the avatar of \<open>alice_user\<close> exist.
\<close>

definition sample_world :: world where
  "sample_world =
     \<lparr>documents = [remote_doc, local_doc], users = [alice_user, bob_user],
      disk = \<lparr>files = [''/app/utils/../uploads/password-manager/documents/docs/report'',
                       ''/app/utils/../uploads/documents/17-5.pdf'',
                       ''/app/utils/../uploads/avatars/u-16-3.png''],
              undeletable = [''/app/utils/../uploads/password-manager/documents/docs/report'']\<rparr>,
      events = []\<rparr>"

definition picture :: upload_file where
  "picture = \<lparr>originalname = ''Me.PNG'', mimetype = ''image/png'', size = 4096\<rparr>"

definition disguised :: upload_file where
  "disguised = \<lparr>originalname = ''png-viewer.exe'', mimetype = ''image/png'', size = 4096\<rparr>"

section \<open>Properties of collections and of the update\<close>

lemma update_first_map_inv:
  "(\<And>x. f (g x) = f x) \<Longrightarrow> map f (update_first P g xs) = map f xs"
  by (induction xs) auto

lemma update_first_no_match: "find P xs = None \<Longrightarrow> update_first P g xs = xs"
  by (induction xs) (auto split: if_splits)

lemma remove_first_no_match: "find P xs = None \<Longrightarrow> remove_first P xs = xs"
  by (induction xs) (auto split: if_splits)

lemma find_update_first:
  "find P xs = Some x \<Longrightarrow> P (g x) \<Longrightarrow> find P (update_first P g xs) = Some (g x)"
  by (induction xs) (auto split: if_splits)

lemma length_update_first [simp]: "length (update_first P g xs) = length xs"
  by (induction xs) auto

lemma find_foreign_none:
  assumes "r \<in> set xs" and "owner r \<noteq> b" and "distinct (map key xs)"
  shows "find (\<lambda>x. key x = key r \<and> owner x = b) xs = None"
proof -
  have "inj_on key (set xs)"
    using assms(3) by (simp add: distinct_map)
  then have "\<And>x. x \<in> set xs \<Longrightarrow> key x = key r \<Longrightarrow> x = r"
    using assms(1) by (auto dest: inj_onD)
  then show ?thesis
    using assms(2) by (auto simp: find_None_iff)
qed

lemma find_own_filter:
  "find (\<lambda>x. key x = i \<and> owner x = b) (filter (\<lambda>x. owner x = b) xs)
     = find (\<lambda>x. key x = i \<and> owner x = b) xs"
  by (induction xs) auto

lemma pw_filter_eq: "pw_filter i u = (\<lambda>p. p_id p = i \<and> p_userId p = u)"
  by (rule ext) (simp add: pw_filter_def)

lemma doc_filter_eq: "doc_filter i u = (\<lambda>d. d_id d = i \<and> d_userId d = u)"
  by (rule ext) (simp add: doc_filter_def)

lemma apply_update_keys [simp]:
  "p_id (apply_update now c p) = p_id p" "p_userId (apply_update now c p) = p_userId p"
  by (simp_all add: apply_update_def)

text \<open>The update route, by cases: validation first, then the lookup.\<close>

lemma updatePassword_result:
  "updatePassword now uid i bd ps =
     (let c = cast_fields (body_fields bd) in
      if invalid_update_paths c \<noteq> []
      then (ReplyCaught 500 (ValidationError (invalid_update_paths c)), ps)
      else (case find (pw_filter i uid) ps of
              None \<Rightarrow> ReplyError 404 ''Password not found''
            | Some p \<Rightarrow> ReplyDoc 200 (apply_update now c p),
            update_first (pw_filter i uid) (apply_update now c) ps))"
  by (simp add: updatePassword_def Password_findOneAndUpdate_def Let_def split: option.splits)

section \<open>Ownership\<close>

text \<open>
  C1 (as amended). Let a password entry \<open>r\<close> and a document \<open>d\<close> be stored, neither owned
  by user \<open>b\<close>, with unique ids in each collection. Then a Get or Delete request of \<open>b\<close>
  for \<open>r\<close> by id, and a Get, Download or Delete request of \<open>b\<close> for \<open>d\<close> by id, is answered
  404 and changes nothing. An Update request of \<open>b\<close> for \<open>r\<close> is answered 404 when its
  payload passes the update validators and with the validation error (status 500)
  otherwise; in both cases the collection is unchanged. No reply carries the record.
  The owner is part of the lookup predicate: what \<open>b\<close> is answered on a Get is what the
  same request is answered on the collection restricted to the records of \<open>b\<close>.
\<close>

theorem ownership_isolation:
  assumes "r \<in> set ps" and "p_userId r \<noteq> b" and "distinct (map p_id ps)"
    and "d \<in> set (documents w)" and "d_userId d \<noteq> b"
    and "distinct (map d_id (documents w))"
  shows "getPassword b (p_id r) ps = ReplyError 404 ''Password not found''
       \<and> deletePassword b (p_id r) ps = (ReplyError 404 ''Password not found'', ps)
       \<and> updatePassword now b (p_id r) bd ps =
           (if invalid_update_paths (cast_fields (body_fields bd)) = []
            then ReplyError 404 ''Password not found''
            else ReplyCaught 500
                   (ValidationError (invalid_update_paths (cast_fields (body_fields bd)))),
            ps)
       \<and> getDocument b (d_id d) w = ReplyError 404 ''Document not found''
       \<and> downloadDocument b (d_id d) w = ReplyError 404 ''Document not found''
       \<and> deleteDocument pf b (d_id d) w = (ReplyError 404 ''Document not found'', w)
       \<and> getPassword b i ps = getPassword b i (filter (\<lambda>p. p_userId p = b) ps)
       \<and> getDocument b i w
           = getDocument b i (w\<lparr>documents := filter (\<lambda>x. d_userId x = b) (documents w)\<rparr>)"
proof -
  have p: "find (pw_filter (p_id r) b) ps = None"
    unfolding pw_filter_eq using assms(1-3) by (rule find_foreign_none)
  have q: "find (doc_filter (d_id d) b) (documents w) = None"
    unfolding doc_filter_eq using assms(4-6) by (rule find_foreign_none)
  have 1: "getPassword b (p_id r) ps = ReplyError 404 ''Password not found''"
    by (simp add: getPassword_def p)
  have 2: "deletePassword b (p_id r) ps = (ReplyError 404 ''Password not found'', ps)"
    by (simp add: deletePassword_def Password_findOneAndDelete_def p remove_first_no_match)
  have 3: "updatePassword now b (p_id r) bd ps =
           (if invalid_update_paths (cast_fields (body_fields bd)) = []
            then ReplyError 404 ''Password not found''
            else ReplyCaught 500
                   (ValidationError (invalid_update_paths (cast_fields (body_fields bd)))),
            ps)"
    by (simp add: updatePassword_result Let_def p update_first_no_match)
  have 4: "getDocument b (d_id d) w = ReplyError 404 ''Document not found''"
    by (simp add: getDocument_def q)
  have 5: "downloadDocument b (d_id d) w = ReplyError 404 ''Document not found''"
    by (simp add: downloadDocument_def q)
  have 6: "deleteDocument pf b (d_id d) w = (ReplyError 404 ''Document not found'', w)"
    by (simp add: deleteDocument_def q)
  have 7: "getPassword b i ps = getPassword b i (filter (\<lambda>p. p_userId p = b) ps)"
    by (simp add: getPassword_def pw_filter_eq find_own_filter)
  have 8: "getDocument b i w
           = getDocument b i (w\<lparr>documents := filter (\<lambda>x. d_userId x = b) (documents w)\<rparr>)"
    by (simp add: getDocument_def doc_filter_eq find_own_filter)
  from 1 2 3 4 5 6 7 8 show ?thesis by blast
qed

text \<open>
  The theorem at the example data: \<open>bob\<close> asks for the entry and the document of
  \<open>alice\<close>, with an update payload that passes validation.
\<close>

theorem ownership_isolation_witness:
  "bank_entry \<in> set [bank_entry] \<and> p_userId bank_entry \<noteq> bob
   \<and> distinct (map p_id [bank_entry])
   \<and> remote_doc \<in> set (documents sample_world) \<and> d_userId remote_doc \<noteq> bob
   \<and> distinct (map d_id (documents sample_world))
   \<and> getPassword bob (p_id bank_entry) [bank_entry] = ReplyError 404 ''Password not found''
   \<and> deletePassword bob (p_id bank_entry) [bank_entry]
       = (ReplyError 404 ''Password not found'', [bank_entry])
   \<and> updatePassword 9 bob (p_id bank_entry) [(''title'', Str ''Mine'')] [bank_entry]
       = (ReplyError 404 ''Password not found'', [bank_entry])
   \<and> getDocument bob (d_id remote_doc) sample_world = ReplyError 404 ''Document not found''
   \<and> downloadDocument bob (d_id remote_doc) sample_world
       = ReplyError 404 ''Document not found''
   \<and> deleteDocument sample_platform bob (d_id remote_doc) sample_world
       = (ReplyError 404 ''Document not found'', sample_world)"
proof -
  have h1: "bank_entry \<in> set [bank_entry]" by simp
  have h2: "p_userId bank_entry \<noteq> bob" by (simp add: bank_entry_def alice_def bob_def)
  have h3: "distinct (map p_id [bank_entry])" by simp
  have h4: "remote_doc \<in> set (documents sample_world)" by (simp add: sample_world_def)
  have h5: "d_userId remote_doc \<noteq> bob" by (simp add: remote_doc_def alice_def bob_def)
  have h6: "distinct (map d_id (documents sample_world))"
    by (simp add: sample_world_def remote_doc_def local_doc_def)
  have v: "invalid_update_paths (cast_fields (body_fields [(''title'', Str ''Mine'')])) = []"
    by code_simp
  show ?thesis
    using ownership_isolation [OF h1 h2 h3 h4 h5 h6, of 9 "[(''title'', Str ''Mine'')]"
        sample_platform 0] h1 h2 h3 h4 h5 h6
    by (simp only: v if_True) simp
qed

text \<open>
  C1 as stated fails for Update: the update validators run before the lookup, so a
  payload with a category outside the enumeration is answered 500 with the validation
  error, not 404, also for a record of another user. Here \<open>bob\<close> updates the entry of
  \<open>alice\<close>.
\<close>

theorem foreign_update_invalid_payload_is_500:
  "updatePassword 9 bob (p_id bank_entry) [(''category'', Str ''bogus'')] [bank_entry]
     = (ReplyCaught 500 (ValidationError [''category'']), [bank_entry])"
  by code_simp

text \<open>
  C2. The Update operation never changes the owner of a password entry: whatever the
  caller, the id and the payload (also a payload with a \<open>userId\<close> key), the entries of
  the collection keep their ids and owners, in the same order.
\<close>

theorem update_keeps_owner:
  "map (\<lambda>p. (p_id p, p_userId p)) (snd (updatePassword now uid i bd ps))
     = map (\<lambda>p. (p_id p, p_userId p)) ps"
  by (simp add: updatePassword_result Let_def update_first_map_inv)

section \<open>Creating and updating password entries\<close>

lemma js_trim_Nil [simp]: "js_trim [] = []"
  by (simp add: js_trim_def)

lemma js_trim_other [simp]: "js_trim ''other'' = ''other''"
  by (simp add: js_trim_def js_space_def)

lemma category_of_body:
  "f_category (cast_fields (body_fields bd)) =
     Str (if truthy (field bd ''category'') then js_trim (str_of (field bd ''category''))
          else ''other'')"
  by (cases "field bd ''category''")
     (simp_all add: cast_fields_def body_fields_def js_or_def cast_path_def category_path_def)

lemma category_update_invalid:
  "''category'' \<in> set (invalid_update_paths (cast_fields (body_fields bd)))
     \<longleftrightarrow> truthy (field bd ''category'')
         \<and> js_trim (str_of (field bd ''category''))
             \<notin> set [''social'', ''email'', ''banking'', ''shopping'', ''work'', ''other'']"
proof -
  have "''category'' \<in> set (invalid_update_paths (cast_fields (body_fields bd)))
          \<longleftrightarrow> path_invalid category_path (f_category (cast_fields (body_fields bd)))"
    by (auto simp: invalid_update_paths_def schema_paths_def category_of_body)
  then show ?thesis
    by (simp add: category_of_body path_invalid_def category_path_def)
qed

text \<open>
  C3 (as amended). A create request whose title or secret is missing (absent, \<open>null\<close>
  or empty) is answered 400 and the collection is unchanged. When the title and the
  secret are present and the title is not blank, the entry is created whatever the other
  fields are, absent included, and its category is \<open>other\<close> when the request names none.
  A title of white space only passes the guard of the route; the schema trims it, its
  \<open>required\<close> validator fails on save, and the request is answered with the validation
  error, status 500, the collection unchanged.
\<close>

theorem create_requires_title_and_secret:
  "(\<not> truthy (field bd ''title'') \<or> \<not> truthy (field bd ''password'')
      \<longrightarrow> createPassword newId now uid bd ps
            = (ReplyError 400 ''Title and password are required'', ps))
   \<and> (field bd ''title'' = Str t \<and> js_trim t \<noteq> [] \<and> field bd ''password'' = Str s
        \<and> s \<noteq> [] \<and> \<not> truthy (field bd ''category'')
      \<longrightarrow> createPassword newId now uid bd ps
            = (ReplyDoc 201
                 \<lparr>p_id = newId, p_userId = uid, p_title = js_trim t,
                  p_username = cast_path username_path (field bd ''username''),
                  p_password = s,
                  p_website = cast_path website_path (field bd ''website''),
                  p_category = ''other'',
                  p_notes = cast_path notes_path (field bd ''notes''),
                  p_createdAt = now, p_updatedAt = now\<rparr>,
               ps @ [\<lparr>p_id = newId, p_userId = uid, p_title = js_trim t,
                      p_username = cast_path username_path (field bd ''username''),
                      p_password = s,
                      p_website = cast_path website_path (field bd ''website''),
                      p_category = ''other'',
                      p_notes = cast_path notes_path (field bd ''notes''),
                      p_createdAt = now, p_updatedAt = now\<rparr>]))
   \<and> (field bd ''title'' = Str t \<and> t \<noteq> [] \<and> js_trim t = []
        \<and> truthy (field bd ''password'')
      \<longrightarrow> (\<exists>paths. createPassword newId now uid bd ps
                      = (ReplyCaught 500 (ValidationError paths), ps)
                   \<and> ''title'' \<in> set paths))"
proof (intro conjI impI)
  assume "\<not> truthy (field bd ''title'') \<or> \<not> truthy (field bd ''password'')"
  then show "createPassword newId now uid bd ps
               = (ReplyError 400 ''Title and password are required'', ps)"
    by (auto simp: createPassword_def)
next
  assume a: "field bd ''title'' = Str t \<and> js_trim t \<noteq> [] \<and> field bd ''password'' = Str s
        \<and> s \<noteq> [] \<and> \<not> truthy (field bd ''category'')"
  then have t: "t \<noteq> []" by auto
  have opt: "\<And>v. \<not> path_invalid username_path v" "\<And>v. \<not> path_invalid website_path v"
    "\<And>v. \<not> path_invalid notes_path v"
    by (simp_all add: path_invalid_def username_path_def website_path_def notes_path_def)
  let ?c = "cast_fields ((body_fields bd)
              \<lparr>f_category := with_default category_path (f_category (body_fields bd))\<rparr>)"
  have c: "f_title ?c = Str (js_trim t)" "f_password ?c = Str s" "f_category ?c = Str ''other''"
    "f_username ?c = cast_path username_path (field bd ''username'')"
    "f_website ?c = cast_path website_path (field bd ''website'')"
    "f_notes ?c = cast_path notes_path (field bd ''notes'')"
    using a
    by (simp_all add: cast_fields_def body_fields_def js_or_def with_default_def cast_path_def
        title_path_def password_path_def category_path_def)
  have v: "invalid_paths ?c = []"
    using a
    by (simp add: invalid_paths_def schema_paths_def c opt)
       (simp add: path_invalid_def title_path_def password_path_def category_path_def)
  show "createPassword newId now uid bd ps
            = (ReplyDoc 201
                 \<lparr>p_id = newId, p_userId = uid, p_title = js_trim t,
                  p_username = cast_path username_path (field bd ''username''),
                  p_password = s,
                  p_website = cast_path website_path (field bd ''website''),
                  p_category = ''other'',
                  p_notes = cast_path notes_path (field bd ''notes''),
                  p_createdAt = now, p_updatedAt = now\<rparr>,
               ps @ [\<lparr>p_id = newId, p_userId = uid, p_title = js_trim t,
                      p_username = cast_path username_path (field bd ''username''),
                      p_password = s,
                      p_website = cast_path website_path (field bd ''website''),
                      p_category = ''other'',
                      p_notes = cast_path notes_path (field bd ''notes''),
                      p_createdAt = now, p_updatedAt = now\<rparr>])"
    using a t
    by (simp add: createPassword_def Password_create_def Let_def v c)
next
  assume a: "field bd ''title'' = Str t \<and> t \<noteq> [] \<and> js_trim t = []
        \<and> truthy (field bd ''password'')"
  let ?c = "cast_fields ((body_fields bd)
              \<lparr>f_category := with_default category_path (f_category (body_fields bd))\<rparr>)"
  have "f_title ?c = Str []"
    using a by (simp add: cast_fields_def body_fields_def cast_path_def title_path_def)
  then have "path_invalid title_path (f_title ?c)"
    by (simp add: path_invalid_def title_path_def)
  then have m: "''title'' \<in> set (invalid_paths ?c)"
    by (simp add: invalid_paths_def schema_paths_def)
  then have "invalid_paths ?c \<noteq> []"
    by auto
  then have "createPassword newId now uid bd ps
               = (ReplyCaught 500 (ValidationError (invalid_paths ?c)), ps)"
    using a by (simp add: createPassword_def Password_create_def Let_def)
  with m show "\<exists>paths. createPassword newId now uid bd ps
                      = (ReplyCaught 500 (ValidationError paths), ps)
                   \<and> ''title'' \<in> set paths"
    by blast
qed

text \<open>
  The theorem at three requests of \<open>bob\<close>: one without a title, one with a title and a
  secret only, one whose title is a tab and a space.
\<close>

theorem create_requires_title_and_secret_witness:
  "createPassword 11 6 bob [(''password'', Str ''pw'')] [bank_entry]
     = (ReplyError 400 ''Title and password are required'', [bank_entry])
   \<and> createPassword 11 6 bob [(''title'', Str '' Mail ''), (''password'', Str ''pw'')]
         [bank_entry]
     = (ReplyDoc 201
          \<lparr>p_id = 11, p_userId = bob, p_title = ''Mail'', p_username = Undefined,
           p_password = ''pw'', p_website = Undefined, p_category = ''other'',
           p_notes = Undefined, p_createdAt = 6, p_updatedAt = 6\<rparr>,
        [bank_entry,
         \<lparr>p_id = 11, p_userId = bob, p_title = ''Mail'', p_username = Undefined,
          p_password = ''pw'', p_website = Undefined, p_category = ''other'',
          p_notes = Undefined, p_createdAt = 6, p_updatedAt = 6\<rparr>])
   \<and> (\<exists>paths. createPassword 11 6 bob
                 [(''title'', Str [CHR 0x09, CHR 0x20]), (''password'', Str ''pw'')]
                 [bank_entry]
               = (ReplyCaught 500 (ValidationError paths), [bank_entry])
            \<and> ''title'' \<in> set paths)"
proof -
  have tr: "js_trim '' Mail '' = ''Mail''"
    by (simp add: js_trim_def js_space_def)
  have bl: "field [(''title'', Str [CHR 0x09, CHR 0x20]), (''password'', Str ''pw'')] ''title''
              = Str [CHR 0x09, CHR 0x20]
            \<and> [CHR 0x09, CHR 0x20] \<noteq> [] \<and> js_trim [CHR 0x09, CHR 0x20] = []
            \<and> truthy (field [(''title'', Str [CHR 0x09, CHR 0x20]), (''password'', Str ''pw'')]
                        ''password'')"
    by (simp add: field_def js_trim_def js_space_def)
  have 3: "\<exists>paths. createPassword 11 6 bob
                 [(''title'', Str [CHR 0x09, CHR 0x20]), (''password'', Str ''pw'')]
                 [bank_entry]
               = (ReplyCaught 500 (ValidationError paths), [bank_entry])
            \<and> ''title'' \<in> set paths"
    using create_requires_title_and_secret
            [where bd = "[(''title'', Str [CHR 0x09, CHR 0x20]), (''password'', Str ''pw'')]"
               and t = "[CHR 0x09, CHR 0x20]" and newId = 11 and now = 6
               and uid = bob and ps = "[bank_entry]"] bl
    by blast
  have a: "\<not> truthy (field [(''password'', Str ''pw'')] ''title'')
           \<or> \<not> truthy (field [(''password'', Str ''pw'')] ''password'')"
    by (simp add: field_def)
  have b: "field [(''title'', Str '' Mail ''), (''password'', Str ''pw'')] ''title''
             = Str '' Mail ''
           \<and> js_trim '' Mail '' \<noteq> []
           \<and> field [(''title'', Str '' Mail ''), (''password'', Str ''pw'')] ''password''
               = Str ''pw''
           \<and> ''pw'' \<noteq> []
           \<and> \<not> truthy (field [(''title'', Str '' Mail ''), (''password'', Str ''pw'')]
                          ''category'')"
    by (simp add: field_def tr)
  have 1: "createPassword 11 6 bob [(''password'', Str ''pw'')] [bank_entry]
             = (ReplyError 400 ''Title and password are required'', [bank_entry])"
    using create_requires_title_and_secret
            [where bd = "[(''password'', Str ''pw'')]" and newId = 11 and now = 6
               and uid = bob and ps = "[bank_entry]"] a
    by blast
  have 2: "createPassword 11 6 bob [(''title'', Str '' Mail ''), (''password'', Str ''pw'')]
             [bank_entry]
           = (ReplyDoc 201
                \<lparr>p_id = 11, p_userId = bob, p_title = ''Mail'', p_username = Undefined,
                 p_password = ''pw'', p_website = Undefined, p_category = ''other'',
                 p_notes = Undefined, p_createdAt = 6, p_updatedAt = 6\<rparr>,
              [bank_entry,
               \<lparr>p_id = 11, p_userId = bob, p_title = ''Mail'', p_username = Undefined,
                p_password = ''pw'', p_website = Undefined, p_category = ''other'',
                p_notes = Undefined, p_createdAt = 6, p_updatedAt = 6\<rparr>])"
    using create_requires_title_and_secret
            [where bd = "[(''title'', Str '' Mail ''), (''password'', Str ''pw'')]"
               and t = "'' Mail ''" and s = "''pw''" and newId = 11 and now = 6
               and uid = bob and ps = "[bank_entry]"] b
    by (simp add: tr field_def cast_path_def)
  from 1 2 3 show ?thesis by blast
qed

text \<open>
  C3 as stated fails for a title that is present and blank: \<open>bob\<close> sends a title of one
  space with a secret; the request is neither refused with 400 nor does it create an
  entry, it is answered 500 with the validation error of the schema.
\<close>

theorem blank_title_is_500_not_400:
  "createPassword 11 6 bob [(''title'', Str '' ''), (''password'', Str ''pw'')] [bank_entry]
     = (ReplyCaught 500 (ValidationError [''title'']), [bank_entry])"
  by code_simp

text \<open>
  C4 (as amended). The update validators run first: a payload that fails them (a
  category that is present and outside the enumeration, a title or secret set to
  \<open>null\<close> or to nothing) is answered with the validation error, status 500, and changes
  nothing; there is no fallback for an invalid category. A payload that passes applies
  only if an entry with that id exists under that owner, and is answered 404 with the
  collection unchanged otherwise. On success the reply is the post-update entry, which is
  the entry now stored under that id and owner; its category is \<open>other\<close> when the
  payload names none, and the trimmed category of the payload otherwise.
\<close>

theorem update_validates_then_applies:
  "(invalid_update_paths (cast_fields (body_fields bd)) \<noteq> []
      \<longrightarrow> updatePassword now uid i bd ps
            = (ReplyCaught 500
                 (ValidationError (invalid_update_paths (cast_fields (body_fields bd)))), ps))
   \<and> (truthy (field bd ''category'')
        \<and> js_trim (str_of (field bd ''category''))
            \<notin> set [''social'', ''email'', ''banking'', ''shopping'', ''work'', ''other'']
      \<longrightarrow> ''category'' \<in> set (invalid_update_paths (cast_fields (body_fields bd))))
   \<and> (invalid_update_paths (cast_fields (body_fields bd)) = []
        \<and> find (pw_filter i uid) ps = None
      \<longrightarrow> updatePassword now uid i bd ps = (ReplyError 404 ''Password not found'', ps))
   \<and> (invalid_update_paths (cast_fields (body_fields bd)) = []
        \<and> find (pw_filter i uid) ps = Some p
      \<longrightarrow> (\<exists>p'. fst (updatePassword now uid i bd ps) = ReplyDoc 200 p'
              \<and> find (pw_filter i uid) (snd (updatePassword now uid i bd ps)) = Some p'
              \<and> length (snd (updatePassword now uid i bd ps)) = length ps
              \<and> p_id p' = i \<and> p_userId p' = uid \<and> p_updatedAt p' = now
              \<and> p_category p'
                  = (if truthy (field bd ''category'')
                     then js_trim (str_of (field bd ''category'')) else ''other'')
              \<and> p_category p'
                  \<in> set [''social'', ''email'', ''banking'', ''shopping'', ''work'', ''other'']))"
proof (intro conjI impI)
  assume "invalid_update_paths (cast_fields (body_fields bd)) \<noteq> []"
  then show "updatePassword now uid i bd ps
            = (ReplyCaught 500
                 (ValidationError (invalid_update_paths (cast_fields (body_fields bd)))), ps)"
    by (simp add: updatePassword_result)
next
  assume "truthy (field bd ''category'')
        \<and> js_trim (str_of (field bd ''category''))
            \<notin> set [''social'', ''email'', ''banking'', ''shopping'', ''work'', ''other'']"
  then show "''category'' \<in> set (invalid_update_paths (cast_fields (body_fields bd)))"
    by (simp add: category_update_invalid)
next
  assume "invalid_update_paths (cast_fields (body_fields bd)) = []
        \<and> find (pw_filter i uid) ps = None"
  then show "updatePassword now uid i bd ps = (ReplyError 404 ''Password not found'', ps)"
    by (simp add: updatePassword_result update_first_no_match)
next
  let ?c = "cast_fields (body_fields bd)"
  let ?enum = "[''social'', ''email'', ''banking'', ''shopping'', ''work'', ''other'']"
  assume a: "invalid_update_paths ?c = [] \<and> find (pw_filter i uid) ps = Some p"
  then have m: "pw_filter i uid p"
    by (auto simp: find_Some_iff)
  then have m': "pw_filter i uid (apply_update now ?c p)"
    by (simp add: pw_filter_def)
  have cat: "p_category (apply_update now ?c p)
               = (if truthy (field bd ''category'')
                  then js_trim (str_of (field bd ''category'')) else ''other'')"
    by (simp add: apply_update_def category_of_body set_str_def)
  have "''category'' \<notin> set (invalid_update_paths ?c)"
    using a by simp
  then have ok: "truthy (field bd ''category'')
                   \<Longrightarrow> js_trim (str_of (field bd ''category'')) \<in> set ?enum"
    unfolding category_update_invalid by blast
  have mem: "p_category (apply_update now ?c p) \<in> set ?enum"
  proof (cases "truthy (field bd ''category'')")
    case True
    with ok cat show ?thesis by simp
  next
    case False
    with cat show ?thesis by simp
  qed
  have r: "fst (updatePassword now uid i bd ps) = ReplyDoc 200 (apply_update now ?c p)"
    using a by (simp add: updatePassword_result Let_def)
  have s: "snd (updatePassword now uid i bd ps)
             = update_first (pw_filter i uid) (apply_update now ?c) ps"
    using a by (simp add: updatePassword_result Let_def)
  have f: "find (pw_filter i uid) (snd (updatePassword now uid i bd ps))
             = Some (apply_update now ?c p)"
    unfolding s using a m' by (simp add: find_update_first)
  have k: "p_id (apply_update now ?c p) = i" "p_userId (apply_update now ?c p) = uid"
    "p_updatedAt (apply_update now ?c p) = now"
    using m by (simp_all add: pw_filter_def apply_update_def)
  show "\<exists>p'. fst (updatePassword now uid i bd ps) = ReplyDoc 200 p'
              \<and> find (pw_filter i uid) (snd (updatePassword now uid i bd ps)) = Some p'
              \<and> length (snd (updatePassword now uid i bd ps)) = length ps
              \<and> p_id p' = i \<and> p_userId p' = uid \<and> p_updatedAt p' = now
              \<and> p_category p'
                  = (if truthy (field bd ''category'')
                     then js_trim (str_of (field bd ''category'')) else ''other'')
              \<and> p_category p' \<in> set ?enum"
    using r f k cat mem s by (intro exI [of _ "apply_update now ?c p"]) simp
qed

text \<open>
  The theorem at three requests of \<open>alice\<close> on a collection holding her entry: a payload
  with a category outside the enumeration, a valid payload for an id that is not
  stored, and a valid payload without category for her entry.
\<close>

theorem update_validates_then_applies_witness:
  "updatePassword 9 alice 10 [(''category'', Str ''bogus'')] [bank_entry]
     = (ReplyCaught 500
          (ValidationError
             (invalid_update_paths (cast_fields (body_fields [(''category'', Str ''bogus'')])))),
        [bank_entry])
   \<and> ''category''
        \<in> set (invalid_update_paths (cast_fields (body_fields [(''category'', Str ''bogus'')])))
   \<and> updatePassword 9 alice 99 [(''title'', Str ''Bank 2'')] [bank_entry]
       = (ReplyError 404 ''Password not found'', [bank_entry])
   \<and> (\<exists>p'. fst (updatePassword 9 alice 10 [(''title'', Str ''Bank 2'')] [bank_entry])
               = ReplyDoc 200 p'
            \<and> find (pw_filter 10 alice)
                 (snd (updatePassword 9 alice 10 [(''title'', Str ''Bank 2'')] [bank_entry]))
               = Some p'
            \<and> p_id p' = 10 \<and> p_userId p' = alice \<and> p_updatedAt p' = 9
            \<and> p_category p' = ''other'')"
proof -
  let ?bad = "[(''category'', Str ''bogus'')]"
  let ?ok = "[(''title'', Str ''Bank 2'')]"
  have h1: "invalid_update_paths (cast_fields (body_fields ?bad)) \<noteq> []"
    by code_simp
  have h2: "truthy (field ?bad ''category'')
        \<and> js_trim (str_of (field ?bad ''category''))
            \<notin> set [''social'', ''email'', ''banking'', ''shopping'', ''work'', ''other'']"
    by code_simp
  have h3: "invalid_update_paths (cast_fields (body_fields ?ok)) = []
        \<and> find (pw_filter 99 alice) [bank_entry] = None"
    by code_simp
  have h4: "invalid_update_paths (cast_fields (body_fields ?ok)) = []
        \<and> find (pw_filter 10 alice) [bank_entry] = Some bank_entry"
    by code_simp
  have nc: "\<not> truthy (field ?ok ''category'')"
    by (simp add: field_def)
  note t1 = update_validates_then_applies
              [where bd = ?bad and now = 9 and uid = alice and i = 10 and ps = "[bank_entry]"]
  note t3 = update_validates_then_applies
              [where bd = ?ok and now = 9 and uid = alice and i = 99 and ps = "[bank_entry]"]
  note t4 = update_validates_then_applies
              [where bd = ?ok and now = 9 and uid = alice and i = 10 and ps = "[bank_entry]"
                 and p = bank_entry]
  have c1: "updatePassword 9 alice 10 ?bad [bank_entry]
     = (ReplyCaught 500 (ValidationError (invalid_update_paths (cast_fields (body_fields ?bad)))),
        [bank_entry])"
    using t1 h1 by blast
  have c2: "''category'' \<in> set (invalid_update_paths (cast_fields (body_fields ?bad)))"
    using t1 h2 by blast
  have c3: "updatePassword 9 alice 99 ?ok [bank_entry]
       = (ReplyError 404 ''Password not found'', [bank_entry])"
    using t3 h3 by blast
  have c4: "\<exists>p'. fst (updatePassword 9 alice 10 ?ok [bank_entry]) = ReplyDoc 200 p'
            \<and> find (pw_filter 10 alice) (snd (updatePassword 9 alice 10 ?ok [bank_entry]))
               = Some p'
            \<and> p_id p' = 10 \<and> p_userId p' = alice \<and> p_updatedAt p' = 9
            \<and> p_category p' = ''other''"
    using t4 h4 nc by (simp only: if_False) blast
  from c1 c2 c3 c4 show ?thesis by blast
qed

text \<open>
  C4 as stated fails where the category is invalid: \<open>alice\<close> updates her own entry with
  a category outside the enumeration; the reply is the validation error and the entry
  keeps its category, where the claim has the category fall back to \<open>other\<close>.
\<close>

theorem invalid_category_is_rejected_not_defaulted:
  "updatePassword 9 alice (p_id bank_entry)
     [(''title'', Str ''Bank''), (''password'', Str ''x''), (''category'', Str ''bogus'')]
     [bank_entry]
   = (ReplyCaught 500 (ValidationError [''category'']), [bank_entry])"
  by code_simp

section \<open>Deleting blobs and documents\<close>

lemma deleteFromCloudinary_ok: "fst (deleteFromCloudinary pf publicId fs) = Inr ''ok''"
  by (cases "delete_try pf publicId fs")
     (auto simp: deleteFromCloudinary_def delete_try_def Let_def
        split: option.splits if_splits sum.splits)

lemma deleteFromCloudinary_caught:
  "delete_try pf publicId fs = Inl e \<Longrightarrow> deleteFromCloudinary pf publicId fs = (Inr ''ok'', fs)"
  by (simp add: deleteFromCloudinary_def)

lemma try_delete_blob_db [simp]:
  "documents (try_delete_blob pf folder loc w) = documents w"
  "users (try_delete_blob pf folder loc w) = users w"
  by (simp_all add: try_delete_blob_def split: option.splits prod.splits sum.splits)

lemma remove_first_key_gone:
  "distinct (map key xs) \<Longrightarrow> k \<notin> key ` set (remove_first (\<lambda>x. key x = k) xs)"
  by (induction xs) auto

lemma find_after_remove_first:
  assumes "distinct (map key xs)"
  shows "find (\<lambda>x. key x = k \<and> owner x = u) (remove_first (\<lambda>x. key x = k) xs) = None"
  using remove_first_key_gone [OF assms, of k] by (auto simp: find_None_iff)

lemma deleteDocument_found:
  assumes "find (doc_filter i uid) (documents w) = Some d"
  shows "fst (deleteDocument pf uid i w) = ReplyMessage ''Document deleted successfully''"
    and "documents (snd (deleteDocument pf uid i w))
           = remove_first (\<lambda>x. d_id x = d_id d) (documents w)"
    and "users (snd (deleteDocument pf uid i w)) = users w"
  using assms by (simp_all add: deleteDocument_def Let_def)

text \<open>
  C5. Removing the blob is best-effort: \<open>deleteFromCloudinary\<close> resolves to \<open>ok\<close> for
  every identifier and every state of the disk, also when the removal throws (the
  exception is caught and the disk left as it is) and when no blob is there. Deleting a
  document found under its owner is answered with success and removes the metadata
  record, whatever the removal of the blob did; with unique ids the document is not
  found afterwards.
\<close>

theorem document_delete_ignores_blob_outcome:
  "fst (deleteFromCloudinary pf publicId fs) = Inr ''ok''
   \<and> (delete_try pf publicId fs = Inl e
        \<longrightarrow> deleteFromCloudinary pf publicId fs = (Inr ''ok'', fs))
   \<and> (find (doc_filter i uid) (documents w) = Some d
        \<longrightarrow> fst (deleteDocument pf uid i w) = ReplyMessage ''Document deleted successfully''
          \<and> documents (snd (deleteDocument pf uid i w))
              = remove_first (\<lambda>x. d_id x = d_id d) (documents w)
          \<and> users (snd (deleteDocument pf uid i w)) = users w)
   \<and> (find (doc_filter i uid) (documents w) = Some d \<and> distinct (map d_id (documents w))
        \<longrightarrow> getDocument uid i (snd (deleteDocument pf uid i w))
              = ReplyError 404 ''Document not found'')"
proof (intro conjI impI)
  show "fst (deleteFromCloudinary pf publicId fs) = Inr ''ok''"
    by (rule deleteFromCloudinary_ok)
next
  assume "delete_try pf publicId fs = Inl e"
  then show "deleteFromCloudinary pf publicId fs = (Inr ''ok'', fs)"
    by (rule deleteFromCloudinary_caught)
next
  assume a: "find (doc_filter i uid) (documents w) = Some d"
  show "fst (deleteDocument pf uid i w) = ReplyMessage ''Document deleted successfully''"
    using a by (rule deleteDocument_found)
  show "documents (snd (deleteDocument pf uid i w))
          = remove_first (\<lambda>x. d_id x = d_id d) (documents w)"
    using a by (rule deleteDocument_found)
  show "users (snd (deleteDocument pf uid i w)) = users w"
    using a by (rule deleteDocument_found)
next
  assume a: "find (doc_filter i uid) (documents w) = Some d
               \<and> distinct (map d_id (documents w))"
  then have "d_id d = i"
    by (auto simp: find_Some_iff doc_filter_def)
  then have "documents (snd (deleteDocument pf uid i w))
               = remove_first (\<lambda>x. d_id x = i) (documents w)"
    using a deleteDocument_found(2) [of i uid w d pf] by simp
  then show "getDocument uid i (snd (deleteDocument pf uid i w))
               = ReplyError 404 ''Document not found''"
    using a by (simp add: getDocument_def doc_filter_eq find_after_remove_first)
qed

text \<open>
  The theorem where the removal of the blob fails (the file exists and cannot be
  removed) and where the blob is missing (an empty disk): \<open>alice\<close> deletes her remote
  document, and the metadata record is gone in both cases.
\<close>

theorem document_delete_ignores_blob_outcome_witness:
  "delete_try sample_platform ''password-manager/documents/docs/report'' (disk sample_world)
     = Inl (FsError ''/app/utils/../uploads/password-manager/documents/docs/report'')
   \<and> deleteFromCloudinary sample_platform ''password-manager/documents/docs/report''
        (disk sample_world)
     = (Inr ''ok'', disk sample_world)
   \<and> find (doc_filter 20 alice) (documents sample_world) = Some remote_doc
   \<and> distinct (map d_id (documents sample_world))
   \<and> fst (deleteDocument sample_platform alice 20 sample_world)
       = ReplyMessage ''Document deleted successfully''
   \<and> documents (snd (deleteDocument sample_platform alice 20 sample_world)) = [local_doc]
   \<and> getDocument alice 20 (snd (deleteDocument sample_platform alice 20 sample_world))
       = ReplyError 404 ''Document not found''
   \<and> fst (deleteDocument sample_platform alice 20
            (sample_world\<lparr>disk := \<lparr>files = [], undeletable = []\<rparr>\<rparr>))
       = ReplyMessage ''Document deleted successfully''
   \<and> documents (snd (deleteDocument sample_platform alice 20
                       (sample_world\<lparr>disk := \<lparr>files = [], undeletable = []\<rparr>\<rparr>)))
       = [local_doc]"
proof -
  let ?w = "sample_world\<lparr>disk := \<lparr>files = [], undeletable = []\<rparr>\<rparr>"
  let ?path = "''/app/utils/../uploads/password-manager/documents/docs/report''"
  have h1: "delete_try sample_platform ''password-manager/documents/docs/report''
              (disk sample_world) = Inl (FsError ?path)"
    by code_simp
  have h2: "find (doc_filter 20 alice) (documents sample_world) = Some remote_doc"
    by code_simp
  have h3: "distinct (map d_id (documents sample_world))"
    by (simp add: sample_world_def remote_doc_def local_doc_def)
  have h4: "find (doc_filter 20 alice) (documents ?w) = Some remote_doc"
    by code_simp
  have r: "remove_first (\<lambda>x. d_id x = d_id remote_doc) (documents sample_world) = [local_doc]"
    "remove_first (\<lambda>x. d_id x = d_id remote_doc) (documents ?w) = [local_doc]"
    by (simp_all add: sample_world_def)
  note t1 = document_delete_ignores_blob_outcome
              [where pf = sample_platform and fs = "disk sample_world"
                 and publicId = "''password-manager/documents/docs/report''"
                 and e = "FsError ?path" and i = 20 and uid = alice and w = sample_world
                 and d = remote_doc]
  note t2 = document_delete_ignores_blob_outcome
              [where pf = sample_platform and i = 20 and uid = alice and w = ?w
                 and d = remote_doc]
  have c1: "deleteFromCloudinary sample_platform ''password-manager/documents/docs/report''
              (disk sample_world) = (Inr ''ok'', disk sample_world)"
    using t1 h1 by blast
  have c2: "fst (deleteDocument sample_platform alice 20 sample_world)
              = ReplyMessage ''Document deleted successfully''"
    "documents (snd (deleteDocument sample_platform alice 20 sample_world)) = [local_doc]"
    "getDocument alice 20 (snd (deleteDocument sample_platform alice 20 sample_world))
       = ReplyError 404 ''Document not found''"
    using t1 h2 h3 r by simp_all
  have c3: "fst (deleteDocument sample_platform alice 20 ?w)
              = ReplyMessage ''Document deleted successfully''"
    "documents (snd (deleteDocument sample_platform alice 20 ?w)) = [local_doc]"
    using t2 h4 r by simp_all
  from h1 h2 h3 c1 c2 c3 show ?thesis by blast
qed

section \<open>Extracting the remote identifier\<close>

lemma indexOf_None_iff: "indexOf xs x = None \<longleftrightarrow> x \<notin> set xs"
  by (induction xs) (auto split: option.splits)

lemma indexOf_drop:
  "indexOf xs x = Some i \<Longrightarrow> drop (i + 1) xs = tl (dropWhile (\<lambda>y. y \<noteq> x) xs)"
proof (induction xs arbitrary: i)
  case Nil
  then show ?case by simp
next
  case (Cons y ys)
  show ?case
  proof (cases "y = x")
    case True
    with Cons.prems show ?thesis by simp
  next
    case False
    with Cons.prems obtain j where j: "indexOf ys x = Some j" "i = Suc j"
      by (auto split: option.splits)
    with Cons.IH [OF j(1)] False show ?thesis by simp
  qed
qed

lemma lastIndexOf_None_iff: "lastIndexOf xs x = None \<longleftrightarrow> x \<notin> set xs"
  by (induction xs) (auto split: option.splits)

lemma dropWhile_until_last:
  "x \<notin> set zs \<Longrightarrow> dropWhile (\<lambda>y. y \<noteq> x) (zs @ [x]) = [x]"
  by (induction zs) auto

lemma lastIndexOf_take:
  "lastIndexOf xs x = Some i \<Longrightarrow> take i xs = rev (tl (dropWhile (\<lambda>y. y \<noteq> x) (rev xs)))"
proof (induction xs arbitrary: i)
  case Nil
  then show ?case by simp
next
  case (Cons y ys)
  show ?case
  proof (cases "lastIndexOf ys x")
    case None
    then have n: "x \<notin> set ys"
      by (simp add: lastIndexOf_None_iff)
    with Cons.prems None have yx: "y = x" and i: "i = 0"
      by (auto split: if_splits)
    from n have "dropWhile (\<lambda>y. y \<noteq> x) (rev ys @ [x]) = [x]"
      by (simp add: dropWhile_until_last)
    with yx i show ?thesis by simp
  next
    case (Some j)
    with Cons.prems have i: "i = Suc j" by simp
    from Some have m: "x \<in> set ys"
      using lastIndexOf_None_iff [of ys x] by auto
    then obtain z where z: "z \<in> set (rev ys)" "\<not> z \<noteq> x"
      by auto
    then have d: "dropWhile (\<lambda>y. y \<noteq> x) (rev ys @ [y])
                    = dropWhile (\<lambda>y. y \<noteq> x) (rev ys) @ [y]"
      by (rule dropWhile_append1)
    have ne: "dropWhile (\<lambda>y. y \<noteq> x) (rev ys) \<noteq> []"
      using m by (simp add: dropWhile_eq_Nil_conv)
    from Cons.IH [OF Some] i d ne show ?thesis by simp
  qed
qed

lemma cut_at_last_dot:
  "(case lastIndexOf s CHR ''.'' of None \<Rightarrow> Some s | Some lastDot \<Rightarrow> Some (take lastDot s))
     = Some (file_stem s)"
proof (cases "lastIndexOf s CHR ''.''")
  case None
  then have "CHR ''.'' \<notin> set s"
    by (simp add: lastIndexOf_None_iff)
  with None show ?thesis
    by (simp add: file_stem_def)
next
  case (Some i)
  then have "CHR ''.'' \<in> set s"
    using lastIndexOf_None_iff [of s "CHR ''.''"] by auto
  with Some show ?thesis
    by (simp add: file_stem_def lastIndexOf_take)
qed

lemma skip_version_parts:
  "(case parts of [] \<Rightarrow> parts | p0 # rest \<Rightarrow> if p0 \<noteq> [] \<and> is_version p0 then rest else parts)
     = skip_version parts"
  by (cases parts) (auto simp: skip_version_def)

text \<open>
  What the code computes on a locator that starts with \<open>http\<close>: the joined segments
  are cut at the last dot of the whole string.
\<close>

lemma extractPublicId_http:
  assumes "startsWith s ''http''"
  shows "extractPublicId pf (Str s)
           = (case url_pathname pf s of
                None \<Rightarrow> None
              | Some pathname \<Rightarrow>
                  map_option (\<lambda>rest. file_stem (js_join ''/'' (skip_version rest)))
                    (after_marker (js_split CHR ''/'' pathname)))"
proof -
  from assms have ne: "s \<noteq> []"
    by (auto simp: startsWith_def)
  show ?thesis
  proof (cases "url_pathname pf s")
    case None
    with assms ne show ?thesis
      by (simp add: extractPublicId_def)
  next
    case (Some pathname)
    note parsed = Some
    show ?thesis
    proof (cases "indexOf (js_split CHR ''/'' pathname) ''upload''")
      case None
      then have "''upload'' \<notin> set (js_split CHR ''/'' pathname)"
        by (simp add: indexOf_None_iff)
      with assms ne parsed None show ?thesis
        by (simp add: extractPublicId_def after_marker_def)
    next
      case (Some k)
      then have m: "''upload'' \<in> set (js_split CHR ''/'' pathname)"
        using indexOf_None_iff [of "js_split CHR ''/'' pathname" "''upload''"] by auto
      have d: "drop (Suc k) (js_split CHR ''/'' pathname)
                 = tl (dropWhile (\<lambda>y. y \<noteq> ''upload'') (js_split CHR ''/'' pathname))"
        using indexOf_drop [OF Some] by simp
      show ?thesis
        using assms ne parsed Some m
        by (simp add: extractPublicId_def after_marker_def Let_def
            d skip_version_parts cut_at_last_dot del: is_version.simps)
    qed
  qed
qed

lemma js_join_snoc:
  "js_join sep (xs @ [y]) = (if xs = [] then y else js_join sep xs @ sep @ y)"
  by (induction sep xs rule: js_join.induct) auto

lemma dot_in_js_join:
  "CHR ''.'' \<in> set (js_join ''/'' segs) \<longleftrightarrow> (\<exists>seg \<in> set segs. CHR ''.'' \<in> set seg)"
  by (induction "''/''" segs rule: js_join.induct) auto

lemma file_stem_append:
  assumes "CHR ''.'' \<in> set name"
  shows "file_stem (p @ name) = p @ file_stem name"
proof -
  from assms obtain z where "z \<in> set (rev name)" "\<not> z \<noteq> CHR ''.''"
    by auto
  then have d: "dropWhile (\<lambda>c. c \<noteq> CHR ''.'') (rev name @ rev p)
                  = dropWhile (\<lambda>c. c \<noteq> CHR ''.'') (rev name) @ rev p"
    by (rule dropWhile_append1)
  have ne: "dropWhile (\<lambda>c. c \<noteq> CHR ''.'') (rev name) \<noteq> []"
    using assms by (simp add: dropWhile_eq_Nil_conv)
  show ?thesis
    using assms d ne by (simp add: file_stem_def)
qed

text \<open>
  Cutting the joined identifier at its last dot strips the extension of the file when
  that dot is in the file name, or when there is no dot.
\<close>

lemma file_stem_js_join:
  assumes "last_dot_in_file_name segs"
  shows "file_stem (js_join ''/'' segs) = js_join ''/'' (strip_file_extension segs)"
proof (cases segs rule: rev_cases)
  case Nil
  then show ?thesis
    by (simp add: file_stem_def strip_file_extension_def)
next
  case (snoc xs name)
  show ?thesis
  proof (cases "CHR ''.'' \<in> set name")
    case True
    let ?p = "if xs = [] then [] else js_join ''/'' xs @ ''/''"
    have 1: "js_join ''/'' (xs @ [name]) = ?p @ name"
      by (simp add: js_join_snoc)
    have 2: "js_join ''/'' (xs @ [file_stem name]) = ?p @ file_stem name"
      by (simp add: js_join_snoc)
    have 3: "strip_file_extension (xs @ [name]) = xs @ [file_stem name]"
      by (simp add: strip_file_extension_def)
    show ?thesis
      unfolding snoc 1 2 3 using True by (rule file_stem_append)
  next
    case False
    with assms snoc have "\<not> (\<exists>seg \<in> set segs. CHR ''.'' \<in> set seg)"
      by (auto simp: last_dot_in_file_name_def list_all_iff)
    then have "CHR ''.'' \<notin> set (js_join ''/'' segs)"
      by (simp add: dot_in_js_join)
    then have 1: "file_stem (js_join ''/'' segs) = js_join ''/'' segs"
      by (simp add: file_stem_def)
    from False have "file_stem name = name"
      by (simp add: file_stem_def)
    then have 2: "strip_file_extension segs = segs"
      unfolding snoc by (simp add: strip_file_extension_def)
    from 1 2 show ?thesis by simp
  qed
qed

lemma extractPublicId_remote:
  assumes "startsWith s ''http''" and "url_pathname pf s = Some pathname"
    and "after_marker (js_split CHR ''/'' pathname) = Some rest"
    and "last_dot_in_file_name (skip_version rest)"
  shows "extractPublicId pf (Str s) = remote_identifier (url_pathname pf) s"
    and "extractPublicId pf (Str s)
           = Some (js_join ''/'' (strip_file_extension (skip_version rest)))"
  using assms
  by (simp_all add: extractPublicId_http remote_identifier_def file_stem_js_join)

text \<open>
  Outside that case the two differ: with a dot in a folder name and none in the file
  name, the code cuts the identifier in the folder name.
\<close>

lemma dotted_folder_is_cut:
  "extractPublicId sample_platform
     (Str ''https://res.cloudinary.com/demo/raw/upload/v17/my.docs/report'') = Some ''my''"
  "remote_identifier sample_pathname
     ''https://res.cloudinary.com/demo/raw/upload/v17/my.docs/report''
     = Some ''my.docs/report''"
  by code_simp+

lemma try_delete_blob_none:
  "extractPublicId pf loc = None \<Longrightarrow> try_delete_blob pf folder loc w = w"
  by (simp add: try_delete_blob_def)

text \<open>
  C6 (as amended). A locator that is \<open>null\<close> or empty has no identifier. A locator that
  does not start with \<open>http\<close> is not parsed as a URL: its identifier is the base name of the
  path without its extension. For a locator that starts with \<open>http\<close>, the URL is parsed
  and the segments after the first \<open>upload\<close> segment of its path are kept, without a
  leading version segment (\<open>v\<close> and digits). When the last dot of these segments, if there
  is one, is in the file name, the function computes what the specification words: the
  segments joined, with the extension of the file stripped. A URL that does not parse and
  a path without the marker have no identifier, and nothing is thrown. The callers go on
  when there is no identifier: no removal is tried, and the document is deleted all the
  same.
\<close>

theorem extractPublicId_by_locator_shape:
  "(\<not> truthy url \<longrightarrow> extractPublicId pf url = None)
   \<and> (s \<noteq> [] \<and> \<not> startsWith s ''http''
        \<longrightarrow> extractPublicId pf (Str s) = Some (path_basename pf s (path_extname pf s)))
   \<and> (startsWith s ''http'' \<and> url_pathname pf s = Some pathname
         \<and> after_marker (js_split CHR ''/'' pathname) = Some rest
         \<and> last_dot_in_file_name (skip_version rest)
        \<longrightarrow> extractPublicId pf (Str s) = remote_identifier (url_pathname pf) s
          \<and> extractPublicId pf (Str s)
              = Some (js_join ''/'' (strip_file_extension (skip_version rest))))
   \<and> (startsWith s ''http'' \<and> url_pathname pf s = None
        \<longrightarrow> extractPublicId pf (Str s) = None)
   \<and> (startsWith s ''http'' \<and> url_pathname pf s = Some pathname
         \<and> ''upload'' \<notin> set (js_split CHR ''/'' pathname)
        \<longrightarrow> extractPublicId pf (Str s) = None)
   \<and> (extractPublicId pf loc = None \<longrightarrow> try_delete_blob pf folder loc w = w)
   \<and> (find (doc_filter i uid) (documents w) = Some d
         \<and> extractPublicId pf (d_filePath d) = None
        \<longrightarrow> deleteDocument pf uid i w
              = (ReplyMessage ''Document deleted successfully'',
                 w\<lparr>documents := remove_first (\<lambda>x. d_id x = d_id d) (documents w),
                   events := events w @ [DocumentDelete (d_id d)]\<rparr>))"
proof (intro conjI impI)
  assume "\<not> truthy url"
  then show "extractPublicId pf url = None"
    by (simp add: extractPublicId_def)
next
  assume "s \<noteq> [] \<and> \<not> startsWith s ''http''"
  then show "extractPublicId pf (Str s) = Some (path_basename pf s (path_extname pf s))"
    by (simp add: extractPublicId_def)
next
  assume a: "startsWith s ''http'' \<and> url_pathname pf s = Some pathname
         \<and> after_marker (js_split CHR ''/'' pathname) = Some rest
         \<and> last_dot_in_file_name (skip_version rest)"
  then have a1: "startsWith s ''http''" and a2: "url_pathname pf s = Some pathname"
    and a3: "after_marker (js_split CHR ''/'' pathname) = Some rest"
    and a4: "last_dot_in_file_name (skip_version rest)"
    by simp_all
  show "extractPublicId pf (Str s) = remote_identifier (url_pathname pf) s"
    using a1 a2 a3 a4 by (rule extractPublicId_remote)
  show "extractPublicId pf (Str s)
          = Some (js_join ''/'' (strip_file_extension (skip_version rest)))"
    using a1 a2 a3 a4 by (rule extractPublicId_remote)
next
  assume "startsWith s ''http'' \<and> url_pathname pf s = None"
  then show "extractPublicId pf (Str s) = None"
    by (simp add: extractPublicId_http)
next
  assume "startsWith s ''http'' \<and> url_pathname pf s = Some pathname
            \<and> ''upload'' \<notin> set (js_split CHR ''/'' pathname)"
  then show "extractPublicId pf (Str s) = None"
    by (simp add: extractPublicId_http after_marker_def)
next
  assume "extractPublicId pf loc = None"
  then show "try_delete_blob pf folder loc w = w"
    by (rule try_delete_blob_none)
next
  assume "find (doc_filter i uid) (documents w) = Some d
            \<and> extractPublicId pf (d_filePath d) = None"
  then show "deleteDocument pf uid i w
              = (ReplyMessage ''Document deleted successfully'',
                 w\<lparr>documents := remove_first (\<lambda>x. d_id x = d_id d) (documents w),
                   events := events w @ [DocumentDelete (d_id d)]\<rparr>)"
    by (simp add: deleteDocument_def Let_def try_delete_blob_none)
qed

text \<open>
  The theorem at a \<open>null\<close> locator, a local path, a remote URL with a version segment,
  a remote URL with a dot in a folder name and an extension, a string that starts with
  \<open>http\<close> and is no URL, a URL without the marker, and the deletion of a document whose
  URL has no marker.
\<close>

theorem extractPublicId_by_locator_shape_witness:
  "extractPublicId sample_platform Null = None
   \<and> extractPublicId sample_platform (Str ''/uploads/documents/17-5.pdf'') = Some ''17-5''
   \<and> extractPublicId sample_platform
        (Str ''https://res.cloudinary.com/demo/raw/upload/v17/docs/report.pdf'')
       = Some ''docs/report''
   \<and> extractPublicId sample_platform
        (Str ''https://res.cloudinary.com/demo/raw/upload/v17/my.docs/report.pdf'')
       = Some ''my.docs/report''
   \<and> extractPublicId sample_platform (Str ''httpfoo'') = None
   \<and> extractPublicId sample_platform (Str ''http://x/a/b.png'') = None
   \<and> try_delete_blob sample_platform ''password-manager/documents/''
        (Str ''http://x/a/b.png'') sample_world = sample_world
   \<and> deleteDocument sample_platform alice 20
        (sample_world\<lparr>documents := [remote_doc\<lparr>d_filePath := Str ''http://x/a/b.png''\<rparr>]\<rparr>)
       = (ReplyMessage ''Document deleted successfully'',
          sample_world\<lparr>documents := [], events := [DocumentDelete 20]\<rparr>)"
proof -
  let ?remote = "''https://res.cloudinary.com/demo/raw/upload/v17/docs/report.pdf''"
  let ?d = "remote_doc\<lparr>d_filePath := Str ''http://x/a/b.png''\<rparr>"
  let ?w = "sample_world\<lparr>documents := [?d]\<rparr>"
  have h1: "\<not> truthy Null" by simp
  have h2: "''/uploads/documents/17-5.pdf'' \<noteq> []
             \<and> \<not> startsWith ''/uploads/documents/17-5.pdf'' ''http''"
    by (simp add: startsWith_def)
  let ?dotted = "''https://res.cloudinary.com/demo/raw/upload/v17/my.docs/report.pdf''"
  have h3: "startsWith ?remote ''http''
             \<and> url_pathname sample_platform ?remote
                 = Some ''/demo/raw/upload/v17/docs/report.pdf''
             \<and> after_marker (js_split CHR ''/'' ''/demo/raw/upload/v17/docs/report.pdf'')
                 = Some [''v17'', ''docs'', ''report.pdf'']
             \<and> last_dot_in_file_name (skip_version [''v17'', ''docs'', ''report.pdf''])"
    by code_simp
  have h3': "startsWith ?dotted ''http''
             \<and> url_pathname sample_platform ?dotted
                 = Some ''/demo/raw/upload/v17/my.docs/report.pdf''
             \<and> after_marker (js_split CHR ''/'' ''/demo/raw/upload/v17/my.docs/report.pdf'')
                 = Some [''v17'', ''my.docs'', ''report.pdf'']
             \<and> last_dot_in_file_name (skip_version [''v17'', ''my.docs'', ''report.pdf''])"
    by code_simp
  have h4: "startsWith ''httpfoo'' ''http'' \<and> url_pathname sample_platform ''httpfoo'' = None"
    by code_simp
  have h5: "startsWith ''http://x/a/b.png'' ''http''
             \<and> url_pathname sample_platform ''http://x/a/b.png'' = Some ''/a/b.png''
             \<and> ''upload'' \<notin> set (js_split CHR ''/'' ''/a/b.png'')"
    by code_simp
  have v2: "path_basename sample_platform ''/uploads/documents/17-5.pdf''
              (path_extname sample_platform ''/uploads/documents/17-5.pdf'') = ''17-5''"
    by code_simp
  have v3: "js_join ''/'' (strip_file_extension (skip_version [''v17'', ''docs'', ''report.pdf'']))
              = ''docs/report''"
    by code_simp
  have v3': "js_join ''/''
               (strip_file_extension (skip_version [''v17'', ''my.docs'', ''report.pdf'']))
             = ''my.docs/report''"
    by code_simp
  have c1: "extractPublicId sample_platform Null = None"
    using extractPublicId_by_locator_shape [where url = Null and pf = sample_platform] h1
    by blast
  have c2: "extractPublicId sample_platform (Str ''/uploads/documents/17-5.pdf'')
              = Some ''17-5''"
    using extractPublicId_by_locator_shape
            [where s = "''/uploads/documents/17-5.pdf''" and pf = sample_platform] h2 v2
    by simp
  have "extractPublicId sample_platform (Str ?remote)
          = Some (js_join ''/''
                    (strip_file_extension (skip_version [''v17'', ''docs'', ''report.pdf''])))"
    using extractPublicId_by_locator_shape
            [where s = ?remote and pf = sample_platform
               and pathname = "''/demo/raw/upload/v17/docs/report.pdf''"
               and rest = "[''v17'', ''docs'', ''report.pdf'']"] h3
    by blast
  then have c3: "extractPublicId sample_platform (Str ?remote) = Some ''docs/report''"
    by (simp only: v3)
  have "extractPublicId sample_platform (Str ?dotted)
          = Some (js_join ''/''
                    (strip_file_extension
                       (skip_version [''v17'', ''my.docs'', ''report.pdf''])))"
    using extractPublicId_by_locator_shape
            [where s = ?dotted and pf = sample_platform
               and pathname = "''/demo/raw/upload/v17/my.docs/report.pdf''"
               and rest = "[''v17'', ''my.docs'', ''report.pdf'']"] h3'
    by blast
  then have c3': "extractPublicId sample_platform (Str ?dotted) = Some ''my.docs/report''"
    by (simp only: v3')
  have c4: "extractPublicId sample_platform (Str ''httpfoo'') = None"
    using extractPublicId_by_locator_shape [where s = "''httpfoo''" and pf = sample_platform]
      h4
    by blast
  have c5: "extractPublicId sample_platform (Str ''http://x/a/b.png'') = None"
    using extractPublicId_by_locator_shape
            [where s = "''http://x/a/b.png''" and pf = sample_platform
               and pathname = "''/a/b.png''"] h5
    by blast
  have c6: "try_delete_blob sample_platform ''password-manager/documents/''
              (Str ''http://x/a/b.png'') sample_world = sample_world"
    using extractPublicId_by_locator_shape
            [where loc = "Str ''http://x/a/b.png''" and pf = sample_platform
               and folder = "''password-manager/documents/''" and w = sample_world] c5
    by blast
  have h7: "find (doc_filter 20 alice) (documents ?w) = Some ?d
              \<and> extractPublicId sample_platform (d_filePath ?d) = None"
    using c5 by (simp add: doc_filter_def remote_doc_def)
  have c7: "deleteDocument sample_platform alice 20 ?w
              = (ReplyMessage ''Document deleted successfully'',
                 sample_world\<lparr>documents := [], events := [DocumentDelete 20]\<rparr>)"
    using extractPublicId_by_locator_shape
            [where i = 20 and uid = alice and w = ?w and d = ?d and pf = sample_platform] h7
    by (simp add: sample_world_def remote_doc_def)
  from c1 c2 c3 c3' c4 c5 c6 c7 show ?thesis by blast
qed

text \<open>
  C6 as stated fails for a locator that does not start with \<open>http\<close>: the local path of
  an avatar is not parsed and has no \<open>upload\<close> segment, and the function still returns
  an identifier, the base name of the file.
\<close>

theorem local_path_without_marker_has_identifier:
  "extractPublicId sample_platform (Str ''/uploads/avatars/u-16-3.png'') = Some ''u-16-3''"
  by code_simp

section \<open>Uploading an avatar\<close>

text \<open>
  What the filter does: a file is refused, with status 400 and nothing written, when
  its lower-cased name or its declared content type contains none of the five words.
\<close>

lemma avatar_rejected_before_write:
  assumes "\<not> allowedTypes_test (toLowerCase (originalname file))
             \<or> \<not> allowedTypes_test (mimetype file)"
  shows "postAvatar pf sfx uid (Some file) w
           = (ReplyCaught 400 (PlainError ''Only image files are allowed''), w)"
  using assms by (auto simp: postAvatar_def uploadAvatar_single_def fileFilter_def)

lemma uploadAvatar_single_accepted:
  assumes "fileFilter file = Inr True" and "size file \<le> 5 * 1024 * 1024"
  shows "uploadAvatar_single pf sfx uid (Some file) fs
           = Inr (Some \<lparr>sf_originalname = originalname file, sf_mimetype = mimetype file,
                         sf_size = size file,
                         sf_filename = oid_string pf uid @ ''-'' @ sfx
                                         @ path_extname pf (originalname file),
                         sf_path = path_join pf
                                     [avatarsDir pf,
                                      oid_string pf uid @ ''-'' @ sfx
                                        @ path_extname pf (originalname file)]\<rparr>,
                  fs\<lparr>files := List.insert
                                 (path_join pf
                                    [avatarsDir pf,
                                     oid_string pf uid @ ''-'' @ sfx
                                       @ path_extname pf (originalname file)])
                                 (files fs)\<rparr>)"
  using assms by (simp add: uploadAvatar_single_def Let_def)

text \<open>The avatar route once the upload is accepted and the user found.\<close>

lemma postAvatar_stored:
  assumes "uploadAvatar_single pf sfx uid part (disk w) = Inr (Some file, fs1)"
    and "find (\<lambda>u. u_id u = uid) (users w) = Some user"
    and "avatar = (if sf_path file \<noteq> [] \<and> startsWith (sf_path file) ''http''
                   then Str (sf_path file)
                   else Str (''/uploads/avatars/'' @ sf_filename file))"
    and "w2 = (if truthy (u_avatar user)
               then try_delete_blob pf ''password-manager/avatars/'' (u_avatar user)
                      (w\<lparr>disk := fs1\<rparr>)
               else w\<lparr>disk := fs1\<rparr>)"
  shows "postAvatar pf sfx uid part w
           = (ReplyAvatar ''Avatar uploaded successfully'' avatar,
              w2\<lparr>users := update_first (\<lambda>u. u_id u = uid) (\<lambda>u. u\<lparr>u_avatar := avatar\<rparr>)
                              (users w2),
                 events := events w2 @ [UserSave uid avatar]\<rparr>)"
  using assms by (simp add: postAvatar_def Let_def)

text \<open>
  C7, the code at a file the claim refuses: the name \<open>png-viewer.exe\<close> has the
  extension \<open>.exe\<close>, outside the allow-list, and a declared content type \<open>image/png\<close>.
  The filter tests the whole name, not the extension, finds \<open>png\<close> in it and accepts;
  the file is written and becomes the avatar of \<open>bob\<close>.
\<close>

theorem avatar_filter_accepts_non_image_extension:
  "path_extname sample_platform (originalname disguised) = ''.exe''
   \<and> fileFilter disguised = Inr True
   \<and> fst (postAvatar sample_platform ''17-42'' bob (Some disguised) sample_world)
       = ReplyAvatar ''Avatar uploaded successfully'' (Str ''/uploads/avatars/uu-17-42.exe'')
   \<and> existsSync (disk (snd (postAvatar sample_platform ''17-42'' bob (Some disguised)
                               sample_world)))
        ''/app/utils/../uploads/avatars/uu-17-42.exe''"
proof -
  have ext: "path_extname sample_platform (originalname disguised) = ''.exe''"
    by code_simp
  have ff: "fileFilter disguised = Inr True"
    by code_simp
  have sz: "size disguised \<le> 5 * 1024 * 1024"
    by (simp add: disguised_def)
  have name: "oid_string sample_platform bob @ ''-'' @ ''17-42''
                @ path_extname sample_platform (originalname disguised) = ''uu-17-42.exe''"
    by code_simp
  have path: "path_join sample_platform [avatarsDir sample_platform, ''uu-17-42.exe'']
                = ''/app/utils/../uploads/avatars/uu-17-42.exe''"
    by code_simp
  have u: "find (\<lambda>u. u_id u = bob) (users sample_world) = Some bob_user"
    by code_simp
  have a: "\<not> truthy (u_avatar bob_user)"
    by (simp add: bob_user_def)
  have h: "\<not> startsWith ''/app/utils/../uploads/avatars/uu-17-42.exe'' ''http''"
    by (simp add: startsWith_def)
  note up = uploadAvatar_single_accepted
              [OF ff sz, of sample_platform "''17-42''" bob "disk sample_world",
               unfolded name path]
  have "postAvatar sample_platform ''17-42'' bob (Some disguised) sample_world
          = (ReplyAvatar ''Avatar uploaded successfully''
               (Str ''/uploads/avatars/uu-17-42.exe''),
             sample_world
               \<lparr>disk := (disk sample_world)
                   \<lparr>files := List.insert ''/app/utils/../uploads/avatars/uu-17-42.exe''
                               (files (disk sample_world))\<rparr>,
                users := update_first (\<lambda>u. u_id u = bob)
                           (\<lambda>u. u\<lparr>u_avatar := Str ''/uploads/avatars/uu-17-42.exe''\<rparr>)
                           (users sample_world),
                events := events sample_world
                            @ [UserSave bob (Str ''/uploads/avatars/uu-17-42.exe'')]\<rparr>)"
    by (rule trans [OF postAvatar_stored [OF up u refl refl]]) (simp add: a h)
  then show ?thesis
    using ext ff by (simp add: existsSync_def)
qed

section \<open>Downloading a document\<close>

lemma js_replace_first:
  "pat \<noteq> [] \<Longrightarrow> \<forall>k<length pre. \<not> startsWith (drop k (pre @ pat @ post)) pat
     \<Longrightarrow> js_replace (pre @ pat @ post) pat rep = pre @ rep @ post"
proof (induction pre)
  case Nil
  then obtain c cs where "pat @ post = c # cs"
    by (cases "pat @ post") auto
  then show ?case
    using Nil by (simp add: startsWith_def) (metis append_eq_conv_conj)
next
  case (Cons x xs)
  from Cons.prems(2) have 0: "\<not> startsWith (x # xs @ pat @ post) pat"
    by force
  have "\<forall>k<length xs. \<not> startsWith (drop k (xs @ pat @ post)) pat"
  proof (intro allI impI)
    fix k assume "k < length xs"
    then have "Suc k < length (x # xs)" by simp
    with Cons.prems(2) have "\<not> startsWith (drop (Suc k) ((x # xs) @ pat @ post)) pat"
      by blast
    then show "\<not> startsWith (drop k (xs @ pat @ post)) pat" by simp
  qed
  with Cons.IH [OF Cons.prems(1)] 0 show ?case by simp
qed

lemma js_replace_absent: "\<not> js_includes s pat \<Longrightarrow> js_replace s pat rep = s"
  by (induction s) auto

text \<open>
  C8 (as amended). A download request for an id that is not stored under the requester
  is answered 404 \<open>Document not found\<close>. For a document of the requester, a locator
  starting with \<open>http\<close> is answered with a redirect to the locator in which the first
  \<open>/upload/\<close> has become \<open>/upload/fl_attachment/\<close> (the locator itself when it has no
  \<open>/upload/\<close>); every other locator is answered 404 \<open>File not found\<close>, a message
  distinct from that of a missing record. No local file is streamed.
\<close>

theorem download_redirects_remote_only:
  "(find (doc_filter i uid) (documents w) = None
      \<longrightarrow> downloadDocument uid i w = ReplyError 404 ''Document not found'')
   \<and> (find (doc_filter i uid) (documents w) = Some d \<and> d_filePath d = Str s
        \<and> startsWith s ''http''
      \<longrightarrow> downloadDocument uid i w
            = Redirect (js_replace s ''/upload/'' ''/upload/fl_attachment/''))
   \<and> (find (doc_filter i uid) (documents w) = Some d
        \<and> \<not> (truthy (d_filePath d) \<and> startsWith (str_of (d_filePath d)) ''http'')
      \<longrightarrow> downloadDocument uid i w = ReplyError 404 ''File not found'')
   \<and> ((\<forall>k<length pre. \<not> startsWith (drop k (pre @ ''/upload/'' @ post)) ''/upload/'')
      \<longrightarrow> js_replace (pre @ ''/upload/'' @ post) ''/upload/'' ''/upload/fl_attachment/''
            = pre @ ''/upload/fl_attachment/'' @ post)
   \<and> (\<not> js_includes s ''/upload/''
      \<longrightarrow> js_replace s ''/upload/'' ''/upload/fl_attachment/'' = s)
   \<and> (ReplyError 404 ''File not found'' :: document_doc reply)
       \<noteq> ReplyError 404 ''Document not found''"
proof (intro conjI impI)
  assume "find (doc_filter i uid) (documents w) = None"
  then show "downloadDocument uid i w = ReplyError 404 ''Document not found''"
    by (simp add: downloadDocument_def)
next
  assume a: "find (doc_filter i uid) (documents w) = Some d \<and> d_filePath d = Str s
        \<and> startsWith s ''http''"
  then have "s \<noteq> []"
    by (auto simp: startsWith_def)
  with a show "downloadDocument uid i w
            = Redirect (js_replace s ''/upload/'' ''/upload/fl_attachment/'')"
    by (simp add: downloadDocument_def)
next
  assume "find (doc_filter i uid) (documents w) = Some d
        \<and> \<not> (truthy (d_filePath d) \<and> startsWith (str_of (d_filePath d)) ''http'')"
  then show "downloadDocument uid i w = ReplyError 404 ''File not found''"
    by (auto simp: downloadDocument_def)
next
  assume "\<forall>k<length pre. \<not> startsWith (drop k (pre @ ''/upload/'' @ post)) ''/upload/''"
  then show "js_replace (pre @ ''/upload/'' @ post) ''/upload/'' ''/upload/fl_attachment/''
            = pre @ ''/upload/fl_attachment/'' @ post"
    by (intro js_replace_first) simp_all
next
  assume "\<not> js_includes s ''/upload/''"
  then show "js_replace s ''/upload/'' ''/upload/fl_attachment/'' = s"
    by (rule js_replace_absent)
next
  show "(ReplyError 404 ''File not found'' :: document_doc reply)
       \<noteq> ReplyError 404 ''Document not found''"
    by simp
qed

text \<open>
  The theorem at the example data: \<open>bob\<close> asks for a document of \<open>alice\<close>; \<open>alice\<close>
  downloads her remote document, whose locator has one \<open>/upload/\<close>, and her local one;
  a locator without \<open>/upload/\<close> is left as it is.
\<close>

theorem download_redirects_remote_only_witness:
  "find (doc_filter 20 bob) (documents sample_world) = None
   \<and> downloadDocument bob 20 sample_world = ReplyError 404 ''Document not found''
   \<and> find (doc_filter 20 alice) (documents sample_world) = Some remote_doc
   \<and> downloadDocument alice 20 sample_world
       = Redirect
           ''https://res.cloudinary.com/demo/raw/upload/fl_attachment/v17/docs/report.pdf''
   \<and> find (doc_filter 21 alice) (documents sample_world) = Some local_doc
   \<and> downloadDocument alice 21 sample_world = ReplyError 404 ''File not found''
   \<and> js_replace ''http://x/a/b.png'' ''/upload/'' ''/upload/fl_attachment/''
       = ''http://x/a/b.png''"
proof -
  let ?pre = "''https://res.cloudinary.com/demo/raw''"
  let ?post = "''v17/docs/report.pdf''"
  have h1: "find (doc_filter 20 bob) (documents sample_world) = None"
    by code_simp
  have h2: "find (doc_filter 20 alice) (documents sample_world) = Some remote_doc
              \<and> d_filePath remote_doc = Str (?pre @ ''/upload/'' @ ?post)
              \<and> startsWith (?pre @ ''/upload/'' @ ?post) ''http''"
    by code_simp
  have h3: "find (doc_filter 21 alice) (documents sample_world) = Some local_doc
        \<and> \<not> (truthy (d_filePath local_doc)
               \<and> startsWith (str_of (d_filePath local_doc)) ''http'')"
    by code_simp
  have "list_all (\<lambda>k. \<not> startsWith (drop k (?pre @ ''/upload/'' @ ?post)) ''/upload/'')
          [0..<length ?pre]"
    by code_simp
  then have h4: "\<forall>k<length ?pre. \<not> startsWith (drop k (?pre @ ''/upload/'' @ ?post))
                                       ''/upload/''"
    by (simp only: list_all_iff set_upt) simp
  have h5: "\<not> js_includes ''http://x/a/b.png'' ''/upload/''"
    by code_simp
  note t = download_redirects_remote_only
             [where w = sample_world and pre = ?pre and post = ?post
                and s = "''http://x/a/b.png''"]
  note t2 = download_redirects_remote_only
             [where w = sample_world and i = 20 and uid = alice and d = remote_doc
                and s = "?pre @ ''/upload/'' @ ?post" and pre = ?pre and post = ?post]
  have c1: "downloadDocument bob 20 sample_world = ReplyError 404 ''Document not found''"
    using t [where i = 20 and uid = bob] h1 by blast
  have r: "js_replace (?pre @ ''/upload/'' @ ?post) ''/upload/'' ''/upload/fl_attachment/''
             = ?pre @ ''/upload/fl_attachment/'' @ ?post"
    using t2 h4 by blast
  have "downloadDocument alice 20 sample_world
          = Redirect (js_replace (?pre @ ''/upload/'' @ ?post) ''/upload/''
                        ''/upload/fl_attachment/'')"
    using t2 h2 by blast
  then have c2: "downloadDocument alice 20 sample_world
       = Redirect
           ''https://res.cloudinary.com/demo/raw/upload/fl_attachment/v17/docs/report.pdf''"
    unfolding r by simp
  have c3: "downloadDocument alice 21 sample_world = ReplyError 404 ''File not found''"
    using t [where i = 21 and uid = alice and d = local_doc] h3 by blast
  have c5: "js_replace ''http://x/a/b.png'' ''/upload/'' ''/upload/fl_attachment/''
       = ''http://x/a/b.png''"
    using t h5 by blast
  from h1 h2 h3 c1 c2 c3 c5 show ?thesis by blast
qed

text \<open>
  C8 as stated fails for a local locator: the file of the local document of \<open>alice\<close>
  is on the disk, in the documents directory under its stored name, and her download
  request is answered 404 \<open>File not found\<close>; nothing is streamed.
\<close>

theorem local_download_is_not_streamed:
  "d_filePath local_doc = Str ''/uploads/documents/17-5.pdf''
   \<and> existsSync (disk sample_world)
        (path_join sample_platform [documentsDir sample_platform, d_filename local_doc])
   \<and> downloadDocument alice (d_id local_doc) sample_world = ReplyError 404 ''File not found''"
  by code_simp

section \<open>Replacing and deleting an avatar\<close>

lemma try_delete_blob_events:
  "events (try_delete_blob pf folder loc w)
     = events w @ (case extractPublicId pf loc of
                     None \<Rightarrow> []
                   | Some publicId \<Rightarrow>
                       if publicId = [] then [] else [BlobDelete (folder @ publicId)])"
  by (simp add: try_delete_blob_def split: option.splits prod.splits sum.splits)

lemma uploadAvatar_single_written:
  "uploadAvatar_single pf sfx uid part fs = Inr (Some file, fs1)
     \<Longrightarrow> existsSync fs1 (sf_path file)"
  by (auto simp: uploadAvatar_single_def Let_def existsSync_def
      split: option.splits sum.splits if_splits)

lemma picture_upload_stored:
  "uploadAvatar_single sample_platform ''17-42'' alice (Some picture) (disk sample_world)
     = Inr (Some \<lparr>sf_originalname = ''Me.PNG'', sf_mimetype = ''image/png'', sf_size = 4096,
                   sf_filename = ''u-17-42.PNG'',
                   sf_path = ''/app/utils/../uploads/avatars/u-17-42.PNG''\<rparr>,
            (disk sample_world)
              \<lparr>files := List.insert ''/app/utils/../uploads/avatars/u-17-42.PNG''
                          (files (disk sample_world))\<rparr>)"
proof -
  have ff: "fileFilter picture = Inr True"
    by code_simp
  have sz: "size picture \<le> 5 * 1024 * 1024"
    by (simp add: picture_def)
  have name: "oid_string sample_platform alice @ ''-'' @ ''17-42''
                @ path_extname sample_platform (originalname picture) = ''u-17-42.PNG''"
    by code_simp
  have path: "path_join sample_platform [avatarsDir sample_platform, ''u-17-42.PNG'']
                = ''/app/utils/../uploads/avatars/u-17-42.PNG''"
    by code_simp
  show ?thesis
    using uploadAvatar_single_accepted
            [OF ff sz, of sample_platform "''17-42''" alice "disk sample_world",
             unfolded name path]
    by (simp add: picture_def)
qed

text \<open>
  C9 (as amended). When a user who has an avatar uploads a new one that is accepted:
  the new blob has been written by the upload middleware; then the deletion of the
  previous blob is attempted, best-effort (whatever the disk does, the reply is the
  same); then the user record is saved with the new locator. The reply carries the new
  locator, the stored user record holds it in place of the old one, and the deletion
  attempt, when the old locator has an identifier, comes before the save.
\<close>

theorem avatar_replaced_after_delete_attempt:
  assumes "uploadAvatar_single pf sfx uid part (disk w) = Inr (Some file, fs1)"
    and "find (\<lambda>u. u_id u = uid) (users w) = Some user"
    and "truthy (u_avatar user)"
    and "new = (if sf_path file \<noteq> [] \<and> startsWith (sf_path file) ''http''
                then Str (sf_path file)
                else Str (''/uploads/avatars/'' @ sf_filename file))"
  shows "existsSync fs1 (sf_path file)
       \<and> fst (postAvatar pf sfx uid part w) = ReplyAvatar ''Avatar uploaded successfully'' new
       \<and> find (\<lambda>u. u_id u = uid) (users (snd (postAvatar pf sfx uid part w)))
           = Some (user\<lparr>u_avatar := new\<rparr>)
       \<and> events (snd (postAvatar pf sfx uid part w))
           = events w
             @ (case extractPublicId pf (u_avatar user) of
                  None \<Rightarrow> []
                | Some publicId \<Rightarrow>
                    if publicId = [] then []
                    else [BlobDelete (''password-manager/avatars/'' @ publicId)])
             @ [UserSave uid new]"
proof -
  let ?w2 = "try_delete_blob pf ''password-manager/avatars/'' (u_avatar user)
               (w\<lparr>disk := fs1\<rparr>)"
  have r: "postAvatar pf sfx uid part w
             = (ReplyAvatar ''Avatar uploaded successfully'' new,
                ?w2\<lparr>users := update_first (\<lambda>u. u_id u = uid) (\<lambda>u. u\<lparr>u_avatar := new\<rparr>)
                                  (users ?w2),
                    events := events ?w2 @ [UserSave uid new]\<rparr>)"
    using postAvatar_stored [OF assms(1,2,4) refl] assms(3) by simp
  have k: "u_id user = uid"
    using assms(2) by (auto simp: find_Some_iff)
  have 1: "existsSync fs1 (sf_path file)"
    using assms(1) by (rule uploadAvatar_single_written)
  have 2: "fst (postAvatar pf sfx uid part w)
             = ReplyAvatar ''Avatar uploaded successfully'' new"
    by (simp add: r)
  have 3: "find (\<lambda>u. u_id u = uid) (users (snd (postAvatar pf sfx uid part w)))
             = Some (user\<lparr>u_avatar := new\<rparr>)"
    using assms(2) k by (simp add: r find_update_first)
  have 4: "events (snd (postAvatar pf sfx uid part w))
           = events w
             @ (case extractPublicId pf (u_avatar user) of
                  None \<Rightarrow> []
                | Some publicId \<Rightarrow>
                    if publicId = [] then []
                    else [BlobDelete (''password-manager/avatars/'' @ publicId)])
             @ [UserSave uid new]"
    by (simp add: r try_delete_blob_events)
  from 1 2 3 4 show ?thesis by blast
qed

text \<open>The theorem where \<open>alice\<close>, who has an avatar, uploads a picture.\<close>

theorem avatar_replaced_after_delete_attempt_witness:
  "find (\<lambda>u. u_id u = alice) (users sample_world) = Some alice_user
   \<and> truthy (u_avatar alice_user)
   \<and> fst (postAvatar sample_platform ''17-42'' alice (Some picture) sample_world)
       = ReplyAvatar ''Avatar uploaded successfully'' (Str ''/uploads/avatars/u-17-42.PNG'')
   \<and> find (\<lambda>u. u_id u = alice)
        (users (snd (postAvatar sample_platform ''17-42'' alice (Some picture) sample_world)))
       = Some (alice_user\<lparr>u_avatar := Str ''/uploads/avatars/u-17-42.PNG''\<rparr>)
   \<and> existsSync
        ((disk sample_world)
           \<lparr>files := List.insert ''/app/utils/../uploads/avatars/u-17-42.PNG''
                       (files (disk sample_world))\<rparr>)
        ''/app/utils/../uploads/avatars/u-17-42.PNG''"
proof -
  have u: "find (\<lambda>u. u_id u = alice) (users sample_world) = Some alice_user"
    by code_simp
  have a: "truthy (u_avatar alice_user)"
    by (simp add: alice_user_def)
  have n: "Str ''/uploads/avatars/u-17-42.PNG''
             = (if sf_path \<lparr>sf_originalname = ''Me.PNG'', sf_mimetype = ''image/png'',
                            sf_size = 4096, sf_filename = ''u-17-42.PNG'',
                            sf_path = ''/app/utils/../uploads/avatars/u-17-42.PNG''\<rparr> \<noteq> []
                   \<and> startsWith
                        (sf_path \<lparr>sf_originalname = ''Me.PNG'', sf_mimetype = ''image/png'',
                                  sf_size = 4096, sf_filename = ''u-17-42.PNG'',
                                  sf_path = ''/app/utils/../uploads/avatars/u-17-42.PNG''\<rparr>)
                        ''http''
                then Str (sf_path \<lparr>sf_originalname = ''Me.PNG'', sf_mimetype = ''image/png'',
                                   sf_size = 4096, sf_filename = ''u-17-42.PNG'',
                                   sf_path = ''/app/utils/../uploads/avatars/u-17-42.PNG''\<rparr>)
                else Str (''/uploads/avatars/''
                          @ sf_filename \<lparr>sf_originalname = ''Me.PNG'',
                                         sf_mimetype = ''image/png'', sf_size = 4096,
                                         sf_filename = ''u-17-42.PNG'',
                                         sf_path = ''/app/utils/../uploads/avatars/u-17-42.PNG''\<rparr>))"
    by (simp add: startsWith_def)
  from avatar_replaced_after_delete_attempt [OF picture_upload_stored u a n] u a
  show ?thesis by simp
qed

text \<open>
  C9 as stated fails in the order: the deletion of the previous blob is attempted
  before, not after, the user record is updated. Here \<open>alice\<close> uploads a picture over
  her avatar; the effects of the route are, in this order, the deletion attempt for the
  old avatar and the save of the new locator.
\<close>

theorem old_avatar_deletion_precedes_save:
  "events (snd (postAvatar sample_platform ''17-42'' alice (Some picture) sample_world))
     = [BlobDelete ''password-manager/avatars/u-16-3'',
        UserSave alice (Str ''/uploads/avatars/u-17-42.PNG'')]"
proof -
  have u: "find (\<lambda>u. u_id u = alice) (users sample_world) = Some alice_user"
    by code_simp
  have x: "extractPublicId sample_platform (Str ''/uploads/avatars/u-16-3.png'')
             = Some ''u-16-3''"
    by code_simp
  have e: "events sample_world = []"
    by (simp add: sample_world_def)
  show ?thesis
    by (simp add: postAvatar_stored [OF picture_upload_stored u refl refl]
        try_delete_blob_events x e alice_user_def startsWith_def)
qed

lemma deleteAvatar_found:
  assumes "find (\<lambda>u. u_id u = uid) (users w) = Some user"
  shows "deleteAvatar pf uid w
           = (ReplyMessage ''Avatar deleted successfully'',
              if truthy (u_avatar user)
              then (try_delete_blob pf ''password-manager/avatars/'' (u_avatar user) w)
                     \<lparr>users := update_first (\<lambda>u. u_id u = uid) (\<lambda>u. u\<lparr>u_avatar := Null\<rparr>)
                                 (users w),
                      events := events (try_delete_blob pf ''password-manager/avatars/''
                                          (u_avatar user) w)
                                  @ [UserSave uid Null]\<rparr>
              else w)"
  using assms by (simp add: deleteAvatar_def Let_def)

lemma deleteAvatar_user_after:
  assumes "find (\<lambda>u. u_id u = uid) (users w) = Some user"
  shows "find (\<lambda>u. u_id u = uid) (users (snd (deleteAvatar pf uid w)))
           = Some (if truthy (u_avatar user) then user\<lparr>u_avatar := Null\<rparr> else user)"
proof -
  have "u_id user = uid"
    using assms by (auto simp: find_Some_iff)
  then show ?thesis
    using assms by (simp add: deleteAvatar_found [OF assms] find_update_first)
qed

text \<open>
  C10. For an existing user, deleting the avatar is answered with the same success
  message whether or not a locator is set. When none is set, nothing changes: neither
  the disk, nor the users, nor anything else. Afterwards no locator is set, and the
  field is \<open>null\<close> whenever it was \<open>null\<close> or a non-empty locator before. Deleting a second
  time gives the same reply and leaves what the first deletion left.
\<close>

theorem avatar_delete_idempotent:
  assumes "find (\<lambda>u. u_id u = uid) (users w) = Some user"
  shows "fst (deleteAvatar pf uid w) = ReplyMessage ''Avatar deleted successfully''
       \<and> (\<not> truthy (u_avatar user) \<longrightarrow> snd (deleteAvatar pf uid w) = w)
       \<and> (\<exists>user'. find (\<lambda>u. u_id u = uid) (users (snd (deleteAvatar pf uid w))) = Some user'
              \<and> \<not> truthy (u_avatar user')
              \<and> (u_avatar user = Null \<or> truthy (u_avatar user) \<longrightarrow> u_avatar user' = Null))
       \<and> deleteAvatar pf uid (snd (deleteAvatar pf uid w))
           = (ReplyMessage ''Avatar deleted successfully'', snd (deleteAvatar pf uid w))"
proof -
  let ?w' = "snd (deleteAvatar pf uid w)"
  let ?user' = "if truthy (u_avatar user) then user\<lparr>u_avatar := Null\<rparr> else user"
  have f: "find (\<lambda>u. u_id u = uid) (users ?w') = Some ?user'"
    using assms by (rule deleteAvatar_user_after)
  have n: "\<not> truthy (u_avatar ?user')"
    by simp
  have 1: "fst (deleteAvatar pf uid w) = ReplyMessage ''Avatar deleted successfully''"
    by (simp add: deleteAvatar_found [OF assms])
  have 2: "\<not> truthy (u_avatar user) \<longrightarrow> ?w' = w"
    by (simp add: deleteAvatar_found [OF assms])
  have 3: "\<exists>user'. find (\<lambda>u. u_id u = uid) (users ?w') = Some user'
              \<and> \<not> truthy (u_avatar user')
              \<and> (u_avatar user = Null \<or> truthy (u_avatar user) \<longrightarrow> u_avatar user' = Null)"
    using f n by (intro exI [of _ ?user']) auto
  have 4: "deleteAvatar pf uid ?w' = (ReplyMessage ''Avatar deleted successfully'', ?w')"
    using n by (simp only: deleteAvatar_found [OF f] if_False)
  from 1 2 3 4 show ?thesis by blast
qed

text \<open>
  The theorem for \<open>alice\<close>, who has an avatar, and for \<open>bob\<close>, who has none: the same
  reply, the world unchanged for \<open>bob\<close>, and a second deletion that changes nothing.
\<close>

theorem avatar_delete_idempotent_witness:
  "find (\<lambda>u. u_id u = alice) (users sample_world) = Some alice_user
   \<and> find (\<lambda>u. u_id u = bob) (users sample_world) = Some bob_user
   \<and> fst (deleteAvatar sample_platform alice sample_world)
       = ReplyMessage ''Avatar deleted successfully''
   \<and> fst (deleteAvatar sample_platform bob sample_world)
       = ReplyMessage ''Avatar deleted successfully''
   \<and> snd (deleteAvatar sample_platform bob sample_world) = sample_world
   \<and> (\<exists>user'. find (\<lambda>u. u_id u = alice)
                 (users (snd (deleteAvatar sample_platform alice sample_world))) = Some user'
          \<and> u_avatar user' = Null)
   \<and> deleteAvatar sample_platform alice (snd (deleteAvatar sample_platform alice sample_world))
       = (ReplyMessage ''Avatar deleted successfully'',
          snd (deleteAvatar sample_platform alice sample_world))"
proof -
  have a: "find (\<lambda>u. u_id u = alice) (users sample_world) = Some alice_user"
    by code_simp
  have b: "find (\<lambda>u. u_id u = bob) (users sample_world) = Some bob_user"
    by code_simp
  have ta: "truthy (u_avatar alice_user)"
    by (simp add: alice_user_def)
  have tb: "\<not> truthy (u_avatar bob_user)"
    by (simp add: bob_user_def)
  note A = avatar_delete_idempotent [OF a, of sample_platform]
  note B = avatar_delete_idempotent [OF b, of sample_platform]
  have c1: "fst (deleteAvatar sample_platform alice sample_world)
              = ReplyMessage ''Avatar deleted successfully''"
    using A by blast
  have c2: "fst (deleteAvatar sample_platform bob sample_world)
              = ReplyMessage ''Avatar deleted successfully''"
    using B by blast
  have c3: "snd (deleteAvatar sample_platform bob sample_world) = sample_world"
    using B tb by blast
  have c4: "\<exists>user'. find (\<lambda>u. u_id u = alice)
                 (users (snd (deleteAvatar sample_platform alice sample_world))) = Some user'
          \<and> u_avatar user' = Null"
    using A ta by blast
  have c5: "deleteAvatar sample_platform alice
              (snd (deleteAvatar sample_platform alice sample_world))
       = (ReplyMessage ''Avatar deleted successfully'',
          snd (deleteAvatar sample_platform alice sample_world))"
    using A by blast
  from a b c1 c2 c3 c4 c5 show ?thesis by blast
qed

end
